theory Spec2Isabelle
  imports Complex_Main
begin

section \<open>Python values, text and exceptions\<close>

text \<open>
  A Python \<open>str\<close> is modelled by the \<open>string\<close> of its UTF-8 bytes. The non-ASCII
  characters of the literals used below are spelled out.
\<close>

definition times_sign :: string where
  \<comment> \<open>U+00D7, the multiplication sign of \<open>multiply\<close> and \<open>factorial\<close>\<close>
  "times_sign = [CHR 0xC3, CHR 0x97]"

definition leq_sign :: string where
  \<comment> \<open>U+2264, the less-or-equal sign of the factorial limit message\<close>
  "leq_sign = [CHR 0xE2, CHR 0x89, CHR 0xA4]"

text \<open>
  Floats are carried by their exact value. Rounding and the decimal text of a float are
  not computed here: wherever a tool's result depends on them, the environment supplies
  the result (see \<open>py_env\<close>).
\<close>

datatype pyfloat = Finite rat | NegZero | PosInf | NegInf | NaN

datatype pyval =
    PNone
  | PBool bool
  | PInt int
  | PFloat pyfloat
  | PStr string
  | PList "pyval list"
  | PDict "(string \<times> pyval) list"

text \<open>
  An exception: its class name and the text \<open>str(e)\<close> gives. The interpreter's own
  messages are abridged; what is stated below rests on none of their wording.
\<close>

datatype pyexn = PyExn string string

fun str_exn :: "pyexn \<Rightarrow> string" where
  "str_exn (PyExn cls msg) = msg"

fun type_name :: "pyval \<Rightarrow> string" where
  "type_name PNone = ''NoneType''"
| "type_name (PBool b) = ''bool''"
| "type_name (PInt i) = ''int''"
| "type_name (PFloat f) = ''float''"
| "type_name (PStr s) = ''str''"
| "type_name (PList xs) = ''list''"
| "type_name (PDict kv) = ''dict''"

subsection \<open>\<open>str\<close> of an integer\<close>

definition digit_char :: "nat \<Rightarrow> char" where
  "digit_char d = char_of (of_char (CHR ''0'') + d)"

fun str_nat :: "nat \<Rightarrow> string" where
  "str_nat n = (if n < 10 then [digit_char n] else str_nat (n div 10) @ [digit_char (n mod 10)])"

declare str_nat.simps [simp del]

definition str_int :: "int \<Rightarrow> string" where
  "str_int i = (if i < 0 then CHR ''-'' # str_nat (nat (- i)) else str_nat (nat i))"

text \<open>
  Recent interpreters refuse to convert between \<open>int\<close> and \<open>str\<close> beyond 4300 digits
  (they raise ValueError); older ones convert. Beyond the limit the environment answers.
\<close>

definition max_str_digits :: nat where
  "max_str_digits = 4300"

definition printable :: "int \<Rightarrow> bool" where
  "printable i = (length (str_nat (nat \<bar>i\<bar>)) \<le> max_str_digits)"

text \<open>Reading a decimal numeral back, to state that \<open>str_int\<close> loses nothing.\<close>

definition digit_val :: "char \<Rightarrow> nat" where
  "digit_val c = of_char c - of_char (CHR ''0'')"

definition nat_of_digits :: "string \<Rightarrow> nat" where
  "nat_of_digits ds = foldl (\<lambda>acc c. 10 * acc + digit_val c) 0 ds"

definition int_of_str :: "string \<Rightarrow> int" where
  "int_of_str s = (case s of
       [] \<Rightarrow> 0
     | c # r \<Rightarrow> if c = CHR ''-'' then - int (nat_of_digits r) else int (nat_of_digits s))"

fun py_join :: "string \<Rightarrow> string list \<Rightarrow> string" where
  \<comment> \<open>\<open>sep.join(xs)\<close>\<close>
  "py_join sep [] = []"
| "py_join sep [x] = x"
| "py_join sep (x # y # ys) = x @ sep @ py_join sep (y # ys)"

section \<open>The environment\<close>

text \<open>
  What the program takes from outside and this development does not compute: the files
  under the tools' base directory, binary floating-point arithmetic with its decimal
  formatting, and the JSON decoder beyond the fragment computed by \<open>json_loads\<close> below.
  Every theorem that mentions an environment holds for all of them.
\<close>

record py_env =
  json_ext :: "string \<Rightarrow> pyexn + pyval"
    \<comment> \<open>\<open>json.loads\<close> on a text with a float, a backslash escape, an integer too long to
        convert, or very deep nesting\<close>
  calc_ext :: "string \<Rightarrow> pyval list \<Rightarrow> pyexn + pyval"
    \<comment> \<open>a calculator tool, by name, on arguments that are not all integers, or with an
        integer too long to print\<close>
  list_files_io :: "pyval \<Rightarrow> string"
  read_file_io :: "pyval \<Rightarrow> string"
  search_content_io :: "pyval \<Rightarrow> string"

text \<open>
  A fixed environment for the closed examples of this development, none of which
  consults it: an empty directory, and nothing to answer beyond the computed fragments.
\<close>

definition bare_env :: py_env where
  "bare_env =
     \<lparr>json_ext = (\<lambda>s. Inl (PyExn ''JSONDecodeError'' ''not decoded here'')),
      calc_ext = (\<lambda>f args. Inl (PyExn ''TypeError'' ''not computed here'')),
      list_files_io = (\<lambda>pattern. ''No files found matching pattern: *''),
      read_file_io = (\<lambda>filename. ''Error: File not found''),
      search_content_io = (\<lambda>query. ''No matches found'')\<rparr>"

section \<open>The calculator tools (\<open>CalculatorTools\<close> of mcp\_client.py)\<close>

text \<open>An integer operand with the text \<open>str\<close> gives it; a bool counts as 0 or 1.\<close>

fun int_operand :: "pyval \<Rightarrow> (int \<times> string) option" where
  "int_operand (PInt i) = (if printable i then Some (i, str_int i) else None)"
| "int_operand (PBool b) = Some (if b then (1, ''True'') else (0, ''False''))"
| "int_operand v = None"

fun int_operands :: "pyval list \<Rightarrow> (int \<times> string) list option" where
  "int_operands [] = Some []"
| "int_operands (v # vs) =
     (case int_operand v of
        None \<Rightarrow> None
      | Some p \<Rightarrow> (case int_operands vs of None \<Rightarrow> None | Some ps \<Rightarrow> Some (p # ps)))"

subsection \<open>add, subtract, multiply, divide\<close>

definition add :: "py_env \<Rightarrow> pyval list \<Rightarrow> pyexn + pyval" where
  "add env numbers =
     (case int_operands numbers of
        Some ps \<Rightarrow>
          (if printable (sum_list (map fst ps))
           then (let result = str_int (sum_list (map fst ps))
                 in Inr (PStr (''Result: '' @ result @ ''\<newline>Calculation: ''
                                @ py_join '' + '' (map snd ps) @ '' = '' @ result)))
           else calc_ext env ''add'' numbers)
      | None \<Rightarrow> calc_ext env ''add'' numbers)"

definition subtract :: "py_env \<Rightarrow> pyval \<Rightarrow> pyval \<Rightarrow> pyexn + pyval" where
  "subtract env a b =
     (case int_operands [a, b] of
        Some [(x, xs), (y, ys)] \<Rightarrow>
          (if printable (x - y)
           then (let result = str_int (x - y)
                 in Inr (PStr (''Result: '' @ result @ ''\<newline>Calculation: ''
                                @ xs @ '' - '' @ ys @ '' = '' @ result)))
           else calc_ext env ''subtract'' [a, b])
      | _ \<Rightarrow> calc_ext env ''subtract'' [a, b])"

definition multiply :: "py_env \<Rightarrow> pyval list \<Rightarrow> pyexn + pyval" where
  "multiply env numbers =
     (case int_operands numbers of
        Some ps \<Rightarrow>
          (if printable (foldl (\<lambda>result num. result * num) 1 (map fst ps))
           then (let result = str_int (foldl (\<lambda>result num. result * num) 1 (map fst ps))
                 in Inr (PStr (''Result: '' @ result @ ''\<newline>Calculation: ''
                                @ py_join ('' '' @ times_sign @ '' '') (map snd ps)
                                @ '' = '' @ result)))
           else calc_ext env ''multiply'' numbers)
      | None \<Rightarrow> calc_ext env ''multiply'' numbers)"

fun py_eq_zero :: "pyval \<Rightarrow> bool" where
  \<comment> \<open>\<open>b == 0\<close>: never raises; false for every value that is not a number\<close>
  "py_eq_zero (PInt i) = (i = 0)"
| "py_eq_zero (PBool b) = (\<not> b)"
| "py_eq_zero (PFloat (Finite r)) = (r = 0)"
| "py_eq_zero (PFloat NegZero) = True"
| "py_eq_zero v = False"

definition divide :: "py_env \<Rightarrow> pyval \<Rightarrow> pyval \<Rightarrow> pyval \<Rightarrow> pyexn + pyval" where
  \<comment> \<open>\<open>round(a / b, precision)\<close> is a float, or raises: the environment's\<close>
  "divide env a b precision =
     (if py_eq_zero b then Inr (PStr ''Error: Division by zero'')
      else calc_ext env ''divide'' [a, b, precision])"

subsection \<open>factorial\<close>

fun math_factorial :: "nat \<Rightarrow> nat" where
  "math_factorial 0 = 1"
| "math_factorial (Suc n) = Suc n * math_factorial n"

text \<open>
  \<open>n < k\<close> and \<open>n > k\<close> for an argument \<open>n\<close> decoded from JSON and an integer literal
  \<open>k\<close>: \<open>None\<close> where Python raises TypeError (a string, a list, a dict, None).
  A bool compares as 0 or 1; NaN compares false.
\<close>

fun py_lt_int :: "pyval \<Rightarrow> int \<Rightarrow> bool option" where
  "py_lt_int (PInt i) k = Some (i < k)"
| "py_lt_int (PBool b) k = Some ((if b then 1 else 0) < k)"
| "py_lt_int (PFloat (Finite r)) k = Some (r < of_int k)"
| "py_lt_int (PFloat NegZero) k = Some (0 < k)"
| "py_lt_int (PFloat PosInf) k = Some False"
| "py_lt_int (PFloat NegInf) k = Some True"
| "py_lt_int (PFloat NaN) k = Some False"
| "py_lt_int v k = None"

fun py_gt_int :: "pyval \<Rightarrow> int \<Rightarrow> bool option" where
  "py_gt_int (PInt i) k = Some (i > k)"
| "py_gt_int (PBool b) k = Some ((if b then 1 else 0) > k)"
| "py_gt_int (PFloat (Finite r)) k = Some (r > of_int k)"
| "py_gt_int (PFloat NegZero) k = Some (0 > k)"
| "py_gt_int (PFloat PosInf) k = Some True"
| "py_gt_int (PFloat NegInf) k = Some False"
| "py_gt_int (PFloat NaN) k = Some False"
| "py_gt_int v k = None"

definition quoted :: "string \<Rightarrow> string" where
  \<comment> \<open>a text between two apostrophes\<close>
  "quoted s = [CHR 0x27] @ s @ [CHR 0x27]"

definition not_supported :: "string \<Rightarrow> pyval \<Rightarrow> pyexn" where
  "not_supported opr v = PyExn ''TypeError''
     (quoted opr @ '' not supported between instances of '' @ quoted (type_name v)
        @ '' and '' @ quoted ''int'')"

text \<open>
  The body of \<open>factorial\<close> once both range tests have passed, for an integer \<open>n\<close> that
  \<open>str\<close> writes \<open>shown\<close> (a bool prints as True or False).
\<close>

definition factorial_text :: "string \<Rightarrow> int \<Rightarrow> string" where
  "factorial_text shown n =
     (let result = str_nat (math_factorial (nat n));
          calc = (if n \<le> 5
                  then (let steps = (if n > 0
                                     then py_join ('' '' @ times_sign @ '' '')
                                            (map str_nat [1 ..< Suc (nat n)])
                                     else ''1'')
                        in shown @ ''! = '' @ steps @ '' = '' @ result)
                  else shown @ ''! = '' @ result)
      in ''Result: '' @ result @ ''\<newline>Calculation: '' @ calc)"

definition factorial :: "py_env \<Rightarrow> pyval \<Rightarrow> pyexn + pyval" where
  \<comment> \<open>on a float from 0 to 20, \<open>math.factorial\<close> decides: the environment's\<close>
  "factorial env n =
     (case py_lt_int n 0 of
        None \<Rightarrow> Inl (not_supported ''<'' n)
      | Some True \<Rightarrow> Inr (PStr ''Error: Factorial undefined for negative numbers'')
      | Some False \<Rightarrow>
         (case py_gt_int n 20 of
            None \<Rightarrow> Inl (not_supported ''>'' n)
          | Some True \<Rightarrow> Inr (PStr (''Error: Factorial limited to n '' @ leq_sign @ '' 20''))
          | Some False \<Rightarrow>
             (case n of
                PInt i \<Rightarrow> Inr (PStr (factorial_text (str_int i) i))
              | PBool b \<Rightarrow> Inr (PStr (factorial_text (if b then ''True'' else ''False'')
                                          (if b then 1 else 0)))
              | _ \<Rightarrow> calc_ext env ''factorial'' [n])))"

section \<open>Calling a tool\<close>

text \<open>The functions the registry refers to, and their parameter lists.\<close>

datatype pyfunc =
    FS_list_files | FS_read_file | FS_search_content
  | Calc_add | Calc_subtract | Calc_multiply | Calc_divide | Calc_factorial
  | Calc_convert_temperature | Calc_convert_distance

fun func_name :: "pyfunc \<Rightarrow> string" where
  "func_name FS_list_files = ''list_files''"
| "func_name FS_read_file = ''read_file''"
| "func_name FS_search_content = ''search_content''"
| "func_name Calc_add = ''add''"
| "func_name Calc_subtract = ''subtract''"
| "func_name Calc_multiply = ''multiply''"
| "func_name Calc_divide = ''divide''"
| "func_name Calc_factorial = ''factorial''"
| "func_name Calc_convert_temperature = ''convert_temperature''"
| "func_name Calc_convert_distance = ''convert_distance''"

text \<open>
  The named parameters with their defaults; \<open>None\<close> for the two functions declared with
  \<open>*numbers\<close>.
\<close>

fun func_params :: "pyfunc \<Rightarrow> (string \<times> pyval option) list option" where
  "func_params FS_list_files = Some [(''pattern'', Some (PStr ''*''))]"
| "func_params FS_read_file = Some [(''filename'', None)]"
| "func_params FS_search_content = Some [(''query'', None)]"
| "func_params Calc_add = None"
| "func_params Calc_subtract = Some [(''a'', None), (''b'', None)]"
| "func_params Calc_multiply = None"
| "func_params Calc_divide = Some [(''a'', None), (''b'', None), (''precision'', Some (PInt 2))]"
| "func_params Calc_factorial = Some [(''n'', None)]"
| "func_params Calc_convert_temperature =
     Some [(''value'', None), (''from_unit'', None), (''to_unit'', None)]"
| "func_params Calc_convert_distance =
     Some [(''value'', None), (''from_unit'', None), (''to_unit'', None)]"

definition type_error :: "string \<Rightarrow> pyexn" where
  "type_error msg = PyExn ''TypeError'' msg"

text \<open>
  Binding the arguments of a call to named parameters, as the interpreter does: too many
  positional arguments, an unknown keyword, a parameter given twice and a missing
  parameter without default each raise TypeError.
\<close>

fun fill_params :: "string \<Rightarrow> (string \<times> pyval option) list \<Rightarrow> (string \<times> pyval) list
    \<Rightarrow> pyexn + pyval list" where
  "fill_params f [] kwargs = Inr []"
| "fill_params f ((p, dflt) # ps) kwargs =
     (case (case map_of kwargs p of Some v \<Rightarrow> Some v | None \<Rightarrow> dflt) of
        None \<Rightarrow> Inl (type_error (f @ ''() missing required argument: '' @ quoted p))
      | Some v \<Rightarrow> (case fill_params f ps kwargs of Inl e \<Rightarrow> Inl e | Inr vs \<Rightarrow> Inr (v # vs)))"

definition bind_params :: "string \<Rightarrow> (string \<times> pyval option) list \<Rightarrow> pyval list
    \<Rightarrow> (string \<times> pyval) list \<Rightarrow> pyexn + pyval list" where
  "bind_params f ps args kwargs =
     (if length args > length ps
      then Inl (type_error (f @ ''() takes '' @ str_nat (length ps) @ '' positional arguments but ''
                              @ str_nat (length args) @ '' were given''))
      else (case filter (\<lambda>k. k \<notin> set (map fst ps)) (map fst kwargs) of
              k # _ \<Rightarrow> Inl (type_error (f @ ''() got an unexpected keyword argument '' @ quoted k))
            | [] \<Rightarrow>
               (case filter (\<lambda>k. k \<in> set (map fst (take (length args) ps))) (map fst kwargs) of
                  k # _ \<Rightarrow> Inl (type_error (f @ ''() got multiple values for argument '' @ quoted k))
                | [] \<Rightarrow>
                   (case fill_params f (drop (length args) ps) kwargs of
                      Inl e \<Rightarrow> Inl e
                    | Inr vs \<Rightarrow> Inr (args @ vs)))))"

text \<open>The bodies, on bound arguments.\<close>

definition wrong_arity :: "pyfunc \<Rightarrow> pyexn + pyval" where
  \<comment> \<open>never reached from \<open>call_func\<close>, which binds the right number of arguments\<close>
  "wrong_arity f = Inl (type_error (func_name f @ ''(): wrong number of arguments''))"

definition run_func :: "py_env \<Rightarrow> pyfunc \<Rightarrow> pyval list \<Rightarrow> pyexn + pyval" where
  "run_func env f vs =
     (case f of
        FS_list_files \<Rightarrow>
          (case vs of [pattern] \<Rightarrow> Inr (PStr (list_files_io env pattern)) | _ \<Rightarrow> wrong_arity f)
      | FS_read_file \<Rightarrow>
          (case vs of [filename] \<Rightarrow> Inr (PStr (read_file_io env filename)) | _ \<Rightarrow> wrong_arity f)
      | FS_search_content \<Rightarrow>
          (case vs of [query] \<Rightarrow> Inr (PStr (search_content_io env query)) | _ \<Rightarrow> wrong_arity f)
      | Calc_add \<Rightarrow> add env vs
      | Calc_subtract \<Rightarrow>
          (case vs of [a, b] \<Rightarrow> subtract env a b | _ \<Rightarrow> wrong_arity f)
      | Calc_multiply \<Rightarrow> multiply env vs
      | Calc_divide \<Rightarrow>
          (case vs of [a, b, precision] \<Rightarrow> divide env a b precision | _ \<Rightarrow> wrong_arity f)
      | Calc_factorial \<Rightarrow>
          (case vs of [n] \<Rightarrow> factorial env n | _ \<Rightarrow> wrong_arity f)
      | Calc_convert_temperature \<Rightarrow>
          (case vs of [v, fu, tu] \<Rightarrow> calc_ext env ''convert_temperature'' vs | _ \<Rightarrow> wrong_arity f)
      | Calc_convert_distance \<Rightarrow>
          (case vs of [v, fu, tu] \<Rightarrow> calc_ext env ''convert_distance'' vs | _ \<Rightarrow> wrong_arity f))"

definition call_func :: "py_env \<Rightarrow> pyfunc \<Rightarrow> pyval list \<Rightarrow> (string \<times> pyval) list
    \<Rightarrow> pyexn + pyval" where
  \<comment> \<open>\<open>f(*args, **kwargs)\<close>\<close>
  "call_func env f args kwargs =
     (case func_params f of
        None \<Rightarrow>
          (case kwargs of
             [] \<Rightarrow> run_func env f args
           | (k, _) # _ \<Rightarrow>
               Inl (type_error (func_name f @ ''() got an unexpected keyword argument '' @ quoted k)))
      | Some ps \<Rightarrow>
          (case bind_params (func_name f) ps args kwargs of
             Inl e \<Rightarrow> Inl e
           | Inr vs \<Rightarrow> run_func env f vs))"

section \<open>The tool registry (\<open>MCPToolRegistry\<close>)\<close>

record tool_info =
  func :: pyfunc
  description :: string
  parameters :: "string list"

text \<open>A dict with string keys, in insertion order.\<close>

type_synonym registry = "(string \<times> tool_info) list"

definition register_tools :: registry where
  "register_tools =
    [(''list_files'', \<lparr>func = FS_list_files,
        description = ''List files in the test directory'',
        parameters = [''pattern (optional)'']\<rparr>),
     (''read_file'', \<lparr>func = FS_read_file,
        description = ''Read contents of a file'',
        parameters = [''filename'']\<rparr>),
     (''search_files'', \<lparr>func = FS_search_content,
        description = ''Search for text in files'',
        parameters = [''query'']\<rparr>),
     (''add'', \<lparr>func = Calc_add,
        description = ''Add numbers'',
        parameters = [''*numbers'']\<rparr>),
     (''subtract'', \<lparr>func = Calc_subtract,
        description = ''Subtract two numbers'',
        parameters = [''a'', ''b'']\<rparr>),
     (''multiply'', \<lparr>func = Calc_multiply,
        description = ''Multiply numbers'',
        parameters = [''*numbers'']\<rparr>),
     (''divide'', \<lparr>func = Calc_divide,
        description = ''Divide two numbers'',
        parameters = [''a'', ''b'', ''precision (optional)'']\<rparr>),
     (''factorial'', \<lparr>func = Calc_factorial,
        description = ''Calculate factorial'',
        parameters = [''n'']\<rparr>),
     (''convert_temperature'', \<lparr>func = Calc_convert_temperature,
        description = ''Convert temperature (C, F, K)'',
        parameters = [''value'', ''from_unit'', ''to_unit'']\<rparr>),
     (''convert_distance'', \<lparr>func = Calc_convert_distance,
        description = ''Convert distance (m, ft, mi, km)'',
        parameters = [''value'', ''from_unit'', ''to_unit'']\<rparr>)]"

definition get_tool :: "registry \<Rightarrow> string \<Rightarrow> tool_info option" where
  "get_tool available_tools tool_name = map_of available_tools tool_name"

definition get_all_tools :: "registry \<Rightarrow> registry" where
  "get_all_tools available_tools = available_tools"

section \<open>Decoding the argument payload (\<open>json.loads\<close>)\<close>

text \<open>
  The decoder of the standard library, computed on JSON texts made of objects, arrays,
  strings without backslash escapes, integers, \<open>true\<close>, \<open>false\<close> and \<open>null\<close>. A scan
  ends in a value and the rest of the text, in a syntax error (\<open>Bad\<close>: the decoder raises
  JSONDecodeError), or at the first construct outside this fragment (\<open>Beyond\<close>: the
  environment's \<open>json_ext\<close> answers for the whole text).
\<close>

datatype 'a scan = Ok 'a string | Bad | Beyond

definition json_ws :: "char \<Rightarrow> bool" where
  "json_ws c = (c = CHR '' '' \<or> c = CHR 0x09 \<or> c = CHR 0x0A \<or> c = CHR 0x0D)"

definition skip_ws :: "string \<Rightarrow> string" where
  "skip_ws s = dropWhile json_ws s"

definition is_digit :: "char \<Rightarrow> bool" where
  "is_digit c = (48 \<le> (of_char c :: nat) \<and> (of_char c :: nat) \<le> 57)"

fun startswith :: "string \<Rightarrow> string \<Rightarrow> bool" where
  \<comment> \<open>\<open>s.startswith(p)\<close>\<close>
  "startswith s [] = True"
| "startswith [] (p # ps) = False"
| "startswith (c # cs) (p # ps) = (c = p \<and> startswith cs ps)"

fun scanstring :: "string \<Rightarrow> string \<Rightarrow> string scan" where
  \<comment> \<open>after the opening quote; a control character is an error (strict mode)\<close>
  "scanstring [] acc = Bad"
| "scanstring (c # r) acc =
     (if c = CHR 0x22 then Ok acc r
      else if c = CHR 0x5C then Beyond
      else if (of_char c :: nat) < 32 then Bad
      else scanstring r (acc @ [c]))"

definition float_tail :: "string \<Rightarrow> bool" where
  \<comment> \<open>a fraction or an exponent follows the integer part\<close>
  "float_tail r =
     (case r of
        c # d # r' \<Rightarrow>
          (c = CHR ''.'' \<and> is_digit d)
          \<or> ((c = CHR ''e'' \<or> c = CHR ''E'')
              \<and> (is_digit d
                  \<or> ((d = CHR ''+'' \<or> d = CHR ''-'') \<and> (case r' of x # _ \<Rightarrow> is_digit x | [] \<Rightarrow> False))))
      | _ \<Rightarrow> False)"

definition scan_number :: "string \<Rightarrow> pyval scan" where
  \<comment> \<open>an optional minus, then 0 or a numeral without leading zero\<close>
  "scan_number s =
     (let neg = startswith s ''-'';
          r = (if neg then tl s else s)
      in case r of
           [] \<Rightarrow> Bad
         | d # r' \<Rightarrow>
            if \<not> is_digit d
            then (if startswith s ''NaN'' \<or> startswith s ''Infinity'' \<or> startswith s ''-Infinity''
                  then Beyond else Bad)
            else (let ds = (if d = CHR ''0'' then [d] else d # takeWhile is_digit r');
                      rest = drop (length ds) r
                  in if float_tail rest \<or> length ds > max_str_digits then Beyond
                     else Ok (PInt ((if neg then - 1 else 1) * int (nat_of_digits ds))) rest))"

fun dict_set :: "(string \<times> 'v) list \<Rightarrow> string \<Rightarrow> 'v \<Rightarrow> (string \<times> 'v) list" where
  \<comment> \<open>\<open>d[k] = v\<close>: a key already present keeps its place\<close>
  "dict_set [] k v = [(k, v)]"
| "dict_set ((k', v') # kvs) k v = (if k' = k then (k, v) # kvs else (k', v') # dict_set kvs k v)"

definition max_depth :: nat where
  \<comment> \<open>nesting that stays clear of the interpreter's recursion limit\<close>
  "max_depth = 100"

text \<open>
  The array and object loops, over the scanner \<open>value\<close> for their elements. The first
  argument of each scanner bounds the number of nested calls; \<open>json_loads\<close> starts with
  more than the text can use.
\<close>

primrec scan_array :: "nat \<Rightarrow> (string \<Rightarrow> pyval scan) \<Rightarrow> string \<Rightarrow> pyval list \<Rightarrow> pyval scan" where
  "scan_array 0 value s acc = Beyond"
| "scan_array (Suc n) value s acc =
     (case value s of
        Bad \<Rightarrow> Bad
      | Beyond \<Rightarrow> Beyond
      | Ok v rest \<Rightarrow>
         (case skip_ws rest of
            [] \<Rightarrow> Bad
          | c # r \<Rightarrow>
             if c = CHR '']'' then Ok (PList (acc @ [v])) r
             else if c = CHR '','' then scan_array n value (skip_ws r) (acc @ [v])
             else Bad))"

primrec scan_object :: "nat \<Rightarrow> (string \<Rightarrow> pyval scan) \<Rightarrow> string \<Rightarrow> (string \<times> pyval) list
    \<Rightarrow> pyval scan" where
  "scan_object 0 value s acc = Beyond"
| "scan_object (Suc n) value s acc =
     (case s of
        [] \<Rightarrow> Bad
      | q # r \<Rightarrow>
         if q \<noteq> CHR 0x22 then Bad
         else (case scanstring r [] of
                 Bad \<Rightarrow> Bad
               | Beyond \<Rightarrow> Beyond
               | Ok key rest \<Rightarrow>
                  (case skip_ws rest of
                     [] \<Rightarrow> Bad
                   | colon # r2 \<Rightarrow>
                      if colon \<noteq> CHR '':'' then Bad
                      else (case value (skip_ws r2) of
                              Bad \<Rightarrow> Bad
                            | Beyond \<Rightarrow> Beyond
                            | Ok v rest2 \<Rightarrow>
                               (case skip_ws rest2 of
                                  [] \<Rightarrow> Bad
                                | c # r3 \<Rightarrow>
                                   if c = CHR ''}'' then Ok (PDict (dict_set acc key v)) r3
                                   else if c = CHR '',''
                                   then scan_object n value (skip_ws r3) (dict_set acc key v)
                                   else Bad)))))"

primrec scan_once :: "nat \<Rightarrow> nat \<Rightarrow> string \<Rightarrow> pyval scan" where
  "scan_once 0 d s = Beyond"
| "scan_once (Suc n) d s =
     (case s of
        [] \<Rightarrow> Bad
      | c # r \<Rightarrow>
         if c = CHR 0x22
         then (case scanstring r [] of Ok str rest \<Rightarrow> Ok (PStr str) rest | Bad \<Rightarrow> Bad | Beyond \<Rightarrow> Beyond)
         else if c = CHR ''{''
         then (if startswith (skip_ws r) ''}'' then Ok (PDict []) (tl (skip_ws r))
               else if d \<ge> max_depth then Beyond
               else scan_object n (scan_once n (Suc d)) (skip_ws r) [])
         else if c = CHR ''[''
         then (if startswith (skip_ws r) '']'' then Ok (PList []) (tl (skip_ws r))
               else if d \<ge> max_depth then Beyond
               else scan_array n (scan_once n (Suc d)) (skip_ws r) [])
         else if startswith s ''null'' then Ok PNone (drop 4 s)
         else if startswith s ''true'' then Ok (PBool True) (drop 4 s)
         else if startswith s ''false'' then Ok (PBool False) (drop 5 s)
         else scan_number s)"

definition json_decode_error :: pyexn where
  "json_decode_error = PyExn ''JSONDecodeError'' ''the text is not a JSON document''"

definition json_loads :: "py_env \<Rightarrow> string \<Rightarrow> pyexn + pyval" where
  "json_loads env s =
     (case scan_once (Suc (length s)) 0 (skip_ws s) of
        Bad \<Rightarrow> Inl json_decode_error
      | Beyond \<Rightarrow> json_ext env s
      | Ok v rest \<Rightarrow> if skip_ws rest = [] then Inr v else Inl json_decode_error)"

section \<open>Whitespace (\<open>str.strip\<close>)\<close>

definition is_cont :: "char \<Rightarrow> bool" where
  \<comment> \<open>a continuation byte of a multi-byte character\<close>
  "is_cont c = (128 \<le> (of_char c :: nat) \<and> (of_char c :: nat) < 192)"

definition utf8_chars :: "string \<Rightarrow> string list" where
  \<comment> \<open>the characters of a text, each with its bytes\<close>
  "utf8_chars s =
     (case foldr (\<lambda>b (pending, out). if is_cont b then (b # pending, out)
                                     else ([], (b # pending) # out)) s ([], []) of
        (pending, out) \<Rightarrow> if pending = [] then out else pending # out)"

definition whitespace_chars :: "string list" where
  \<comment> \<open>the characters \<open>str.isspace\<close> accepts: U+0009 to U+000D, U+001C to U+0020, U+0085,
      U+00A0, U+1680, U+2000 to U+200A, U+2028, U+2029, U+202F, U+205F, U+3000\<close>
  "whitespace_chars =
     map (\<lambda>c. [c]) [CHR 0x09, CHR 0x0A, CHR 0x0B, CHR 0x0C, CHR 0x0D,
                    CHR 0x1C, CHR 0x1D, CHR 0x1E, CHR 0x1F, CHR 0x20]
     @ [[CHR 0xC2, CHR 0x85], [CHR 0xC2, CHR 0xA0], [CHR 0xE1, CHR 0x9A, CHR 0x80]]
     @ map (\<lambda>c. [CHR 0xE2, CHR 0x80, c])
         [CHR 0x80, CHR 0x81, CHR 0x82, CHR 0x83, CHR 0x84, CHR 0x85, CHR 0x86, CHR 0x87,
          CHR 0x88, CHR 0x89, CHR 0x8A, CHR 0xA8, CHR 0xA9, CHR 0xAF]
     @ [[CHR 0xE2, CHR 0x81, CHR 0x9F], [CHR 0xE3, CHR 0x80, CHR 0x80]]"

definition isspace :: "string \<Rightarrow> bool" where
  "isspace c = (c \<in> set whitespace_chars)"

definition strip :: "string \<Rightarrow> string" where
  \<comment> \<open>\<open>s.strip()\<close>\<close>
  "strip s = concat (rev (dropWhile isspace (rev (dropWhile isspace (utf8_chars s)))))"

section \<open>The schema translator (\<open>get_function_definitions\<close>)\<close>

fun contains :: "string \<Rightarrow> string \<Rightarrow> bool" where
  \<comment> \<open>\<open>sub in s\<close>\<close>
  "contains [] sub = (sub = [])"
| "contains (c # cs) sub = (startswith (c # cs) sub \<or> contains cs sub)"

text \<open>
  \<open>s.replace(old, new)\<close> for a non-empty \<open>old\<close>: occurrences are replaced from the
  left and do not overlap. The counter is the number of bytes of the occurrence just
  replaced that are still to be skipped.
\<close>

fun replace_from :: "string \<Rightarrow> string \<Rightarrow> nat \<Rightarrow> string \<Rightarrow> string" where
  "replace_from old new k [] = []"
| "replace_from old new k (c # cs) =
     (if k > 0 then replace_from old new (k - 1) cs
      else if startswith (c # cs) old then new @ replace_from old new (length old - 1) cs
      else c # replace_from old new 0 cs)"

definition str_replace :: "string \<Rightarrow> string \<Rightarrow> string \<Rightarrow> string" where
  "str_replace s old new =
     (if old = [] then new @ concat (map (\<lambda>c. c @ new) (utf8_chars s))
      else replace_from old new 0 s)"

record property =
  prop_type :: string
  prop_description :: string

record parameters_schema =
  schema_type :: string
  properties :: "(string \<times> property) list"
  required :: "string list"

record function_def =
  fn_name :: string
  fn_description :: string
  fn_parameters :: parameters_schema

definition param_name :: "string \<Rightarrow> string" where
  "param_name param = str_replace (str_replace param '' (optional)'' []) ''*'' []"

definition numeric_names :: "string list" where
  "numeric_names = [''a'', ''b'', ''value'', ''n'', ''precision'']"

definition add_parameter :: "parameters_schema \<Rightarrow> string \<Rightarrow> parameters_schema" where
  \<comment> \<open>the body of the loop over a tool's parameters\<close>
  "add_parameter ps param =
     (let is_required = \<not> contains param ''(optional)'';
          ps' = ps\<lparr>properties := dict_set (properties ps) (param_name param)
                   \<lparr>prop_type = (if param_name param \<in> set numeric_names
                                  then ''number'' else ''string''),
                    prop_description = ''Parameter: '' @ param\<rparr>\<rparr>
      in if is_required \<and> \<not> startswith param ''*''
         then ps'\<lparr>required := required ps' @ [param_name param]\<rparr>
         else ps')"

definition function_definition :: "string \<Rightarrow> tool_info \<Rightarrow> function_def" where
  "function_definition tool_name tool_info =
     \<lparr>fn_name = tool_name,
      fn_description = description tool_info,
      fn_parameters = foldl add_parameter
         \<lparr>schema_type = ''object'', properties = [], required = []\<rparr>
         (parameters tool_info)\<rparr>"

definition get_function_definitions :: "registry \<Rightarrow> function_def list" where
  "get_function_definitions tool_registry =
     map (\<lambda>(tool_name, tool_info). function_definition tool_name tool_info)
       (get_all_tools tool_registry)"

section \<open>The conversation and the backend\<close>

record tool_call =
  call_id :: string
  function_name :: string
  arguments :: string

text \<open>
  An entry of the conversation history: a dict with \<open>role\<close> and \<open>content\<close>, and for some
  entries \<open>tool_calls\<close>, or \<open>tool_call_id\<close> and \<open>name\<close>.
\<close>

record turn =
  role :: string
  content :: pyval
  tool_calls :: "tool_call list option"
  tool_call_id :: "string option"
  name :: "string option"

definition plain_turn :: "string \<Rightarrow> pyval \<Rightarrow> turn" where
  "plain_turn r c = \<lparr>role = r, content = c, tool_calls = None, tool_call_id = None, name = None\<rparr>"

record assistant_message =
  message_content :: pyval
  message_tool_calls :: "tool_call list option"

record request =
  messages :: "turn list"
  temperature :: pyval
  max_tokens :: pyval
  tools :: "function_def list option"
  tool_choice :: "string option"

text \<open>
  The backend is whatever answers \<open>chat.completions.create\<close>: from its own state and the
  request, the message of the first choice or an exception, and its next state.
\<close>

type_synonym 'b backend = "'b \<Rightarrow> request \<Rightarrow> (pyexn + assistant_message) \<times> 'b"

record client =
  conversation_history :: "turn list"
  max_history :: int

definition system_message :: turn where
  "system_message = plain_turn ''system'' (PStr (
     ''You are a helpful AI assistant with access to various tools.\<newline>''
   @ ''\<newline>''
   @ ''            Available tools:\<newline>''
   @ ''            - File operations (list_files, read_file, search_files)\<newline>''
   @ ''            - Calculator operations (add, subtract, multiply, divide, factorial)\<newline>''
   @ ''            - Unit conversions (convert_temperature, convert_distance)\<newline>''
   @ ''\<newline>''
   @ ''            When a user asks you to perform operations that these tools can handle, use the appropriate tool.\<newline>''
   @ ''            Always provide clear, helpful responses and explain what you'' @ [CHR 0x27]
   @ ''re doing.''))"

definition slice_from :: "'a list \<Rightarrow> int \<Rightarrow> 'a list" where
  \<comment> \<open>\<open>xs[i:]\<close>: a negative \<open>i\<close> counts from the end\<close>
  "slice_from xs i = (if i < 0 then drop (nat (int (length xs) + i)) xs else drop (nat i) xs)"

definition prepare_messages :: "client \<Rightarrow> turn list" where
  "prepare_messages self =
     (let messages = [system_message]
      in if int (length (conversation_history self)) > max_history self
         then messages @ slice_from (conversation_history self) (- max_history self)
         else messages @ conversation_history self)"

definition clear_history :: "client \<Rightarrow> nat \<times> client" where
  "clear_history self =
     (let count = length (conversation_history self)
      in (count, self\<lparr>conversation_history := []\<rparr>))"

definition get_history_length :: "client \<Rightarrow> nat" where
  "get_history_length self = length (conversation_history self)"

section \<open>Dispatching tool calls (\<open>_handle_tool_calls\<close>)\<close>

definition dict_get :: "pyval \<Rightarrow> string \<Rightarrow> pyval \<Rightarrow> pyexn + pyval" where
  \<comment> \<open>\<open>function_args.get(key, default)\<close>: only a dict has \<open>get\<close>\<close>
  "dict_get function_args key dflt =
     (case function_args of
        PDict kv \<Rightarrow> Inr (case map_of kv key of Some v \<Rightarrow> v | None \<Rightarrow> dflt)
      | _ \<Rightarrow> Inl (PyExn ''AttributeError''
                 (quoted (type_name function_args) @ '' object has no attribute '' @ quoted ''get'')))"

definition star_args :: "pyval \<Rightarrow> pyexn + pyval list" where
  \<comment> \<open>\<open>*v\<close>: the elements of a list, the characters of a string, the keys of a dict\<close>
  "star_args v =
     (case v of
        PList xs \<Rightarrow> Inr xs
      | PStr s \<Rightarrow> Inr (map PStr (utf8_chars s))
      | PDict kv \<Rightarrow> Inr (map (\<lambda>(k, _). PStr k) kv)
      | _ \<Rightarrow> Inl (type_error (''argument after * must be an iterable, not '' @ type_name v)))"

definition double_star :: "pyval \<Rightarrow> pyexn + (string \<times> pyval) list" where
  \<comment> \<open>\<open>**v\<close>\<close>
  "double_star v =
     (case v of
        PDict kv \<Rightarrow> Inr kv
      | _ \<Rightarrow> Inl (type_error (''argument after ** must be a mapping, not '' @ type_name v)))"

definition tool_turn :: "tool_call \<Rightarrow> pyval \<Rightarrow> turn" where
  "tool_turn tc c =
     \<lparr>role = ''tool'', content = c, tool_calls = None,
      tool_call_id = Some (call_id tc), name = Some (function_name tc)\<rparr>"

definition invoke_tool :: "py_env \<Rightarrow> tool_info \<Rightarrow> string \<Rightarrow> pyval \<Rightarrow> pyexn + pyval" where
  \<comment> \<open>the call inside the \<open>try\<close>\<close>
  "invoke_tool env tool fname function_args =
     (if fname \<in> set [''add'', ''multiply'']
      then (case dict_get function_args ''numbers'' (PList []) of
              Inl e \<Rightarrow> Inl e
            | Inr v \<Rightarrow> (case star_args v of
                         Inl e \<Rightarrow> Inl e
                       | Inr numbers \<Rightarrow> call_func env (func tool) numbers []))
      else (case double_star function_args of
              Inl e \<Rightarrow> Inl e
            | Inr kwargs \<Rightarrow> call_func env (func tool) [] kwargs))"

definition none_has_no :: "string \<Rightarrow> pyexn" where
  "none_has_no attr = PyExn ''AttributeError''
     (quoted ''NoneType'' @ '' object has no attribute '' @ quoted attr)"

text \<open>
  One pass of the loop body: the tool result it appends to \<open>tool_results\<close>, or the
  exception that leaves the loop.
\<close>

definition execute_tool_call :: "py_env \<Rightarrow> registry option \<Rightarrow> tool_call \<Rightarrow> pyexn + turn" where
  "execute_tool_call env tool_registry tc =
     (case json_loads env (arguments tc) of
        Inl e \<Rightarrow> Inl e
      | Inr function_args \<Rightarrow>
         (case tool_registry of
            None \<Rightarrow> Inl (none_has_no ''get_tool'')
          | Some reg \<Rightarrow>
             (case get_tool reg (function_name tc) of
                Some tool \<Rightarrow>
                  (case invoke_tool env tool (function_name tc) function_args of
                     Inr result \<Rightarrow> Inr (tool_turn tc result)
                   | Inl e \<Rightarrow> Inr (tool_turn tc (PStr (''Error executing tool: '' @ str_exn e))))
              | None \<Rightarrow>
                  Inr (tool_turn tc (PStr (''Tool '' @ quoted (function_name tc) @ '' not found''))))))"

fun execute_tool_calls :: "py_env \<Rightarrow> registry option \<Rightarrow> tool_call list \<Rightarrow> turn list
    \<Rightarrow> pyexn + turn list" where
  "execute_tool_calls env tool_registry [] tool_results = Inr tool_results"
| "execute_tool_calls env tool_registry (tc # tcs) tool_results =
     (case execute_tool_call env tool_registry tc of
        Inl e \<Rightarrow> Inl e
      | Inr t \<Rightarrow> execute_tool_calls env tool_registry tcs (tool_results @ [t]))"

definition append_turns :: "client \<Rightarrow> turn list \<Rightarrow> client" where
  "append_turns self ts = self\<lparr>conversation_history := conversation_history self @ ts\<rparr>"

definition final_request :: "client \<Rightarrow> pyval \<Rightarrow> pyval \<Rightarrow> request" where
  \<comment> \<open>the second call offers no tools\<close>
  "final_request self temp maxt =
     \<lparr>messages = prepare_messages self, temperature = temp, max_tokens = maxt,
      tools = None, tool_choice = None\<rparr>"

definition assistant_calls_turn :: "assistant_message \<Rightarrow> tool_call list \<Rightarrow> turn" where
  \<comment> \<open>the assistant message with its tool calls, as the history keeps it\<close>
  "assistant_calls_turn assistant_message calls =
     \<lparr>role = ''assistant'', content = message_content assistant_message,
      tool_calls = Some calls, tool_call_id = None, name = None\<rparr>"

definition handle_tool_calls :: "py_env \<Rightarrow> 'b backend \<Rightarrow> client \<Rightarrow> 'b \<Rightarrow> assistant_message
    \<Rightarrow> tool_call list \<Rightarrow> registry option \<Rightarrow> pyval \<Rightarrow> pyval \<Rightarrow> (pyexn + pyval) \<times> client \<times> 'b" where
  \<comment> \<open>\<open>calls\<close> is \<open>assistant_message.tool_calls\<close>, not empty\<close>
  "handle_tool_calls env create self bs assistant_message calls tool_registry temp maxt =
     (let self1 = append_turns self [assistant_calls_turn assistant_message calls]
      in case execute_tool_calls env tool_registry calls [] of
           Inl e \<Rightarrow> (Inl e, self1, bs)
         | Inr tool_results \<Rightarrow>
            (let self2 = append_turns self1 tool_results
             in case create bs (final_request self2 temp maxt) of
                  (Inl e, bs') \<Rightarrow> (Inl e, self2, bs')
                | (Inr final_response, bs') \<Rightarrow>
                    (let final_text = message_content final_response
                     in (Inr final_text,
                         append_turns self2 [plain_turn ''assistant'' final_text], bs'))))"

section \<open>One user turn (\<open>chat\<close>)\<close>

definition first_request :: "client \<Rightarrow> registry option \<Rightarrow> bool \<Rightarrow> pyval \<Rightarrow> pyval \<Rightarrow> request" where
  "first_request self tool_registry use_tools temp maxt =
     (let tools = (case tool_registry of
                     Some reg \<Rightarrow> if use_tools then Some (get_function_definitions reg) else None
                   | None \<Rightarrow> None)
      in \<lparr>messages = prepare_messages self, temperature = temp, max_tokens = maxt,
          tools = (case tools of Some (t # ts) \<Rightarrow> Some (t # ts) | _ \<Rightarrow> None),
          tool_choice = (case tools of Some (t # ts) \<Rightarrow> Some ''auto'' | _ \<Rightarrow> None)\<rparr>)"

definition error_text :: "pyexn \<Rightarrow> pyval" where
  "error_text e = PStr (''Error calling Azure OpenAI: '' @ str_exn e)"

definition chat :: "py_env \<Rightarrow> 'b backend \<Rightarrow> client \<Rightarrow> 'b \<Rightarrow> string \<Rightarrow> registry option \<Rightarrow> bool
    \<Rightarrow> pyval \<Rightarrow> pyval \<Rightarrow> pyval \<times> client \<times> 'b" where
  "chat env create self bs message tool_registry use_tools temp maxt =
     (let self1 = append_turns self [plain_turn ''user'' (PStr message)]
      in case create bs (first_request self1 tool_registry use_tools temp maxt) of
           (Inl e, bs1) \<Rightarrow> (error_text e, self1, bs1)
         | (Inr assistant_message, bs1) \<Rightarrow>
            (case message_tool_calls assistant_message of
               Some (tc # tcs) \<Rightarrow>
                 (case handle_tool_calls env create self1 bs1 assistant_message (tc # tcs)
                         tool_registry temp maxt of
                    (Inl e, self2, bs2) \<Rightarrow> (error_text e, self2, bs2)
                  | (Inr final_text, self2, bs2) \<Rightarrow> (final_text, self2, bs2))
             | _ \<Rightarrow>
                 (let response_text = message_content assistant_message
                  in (response_text,
                      append_turns self1 [plain_turn ''assistant'' response_text], bs1))))"

section \<open>The entry point of the application (\<open>process_message\<close> of app.py)\<close>

text \<open>
  \<open>ai_client\<close> and the registry are the module's globals; the history is the chat widget's
  list. \<open>chat\<close> catches what the backend and the dispatch raise, so the \<open>except\<close> branch of
  \<open>process_message\<close> is not reached.
\<close>

definition process_message :: "py_env \<Rightarrow> 'b backend \<Rightarrow> client \<Rightarrow> 'b \<Rightarrow> string \<Rightarrow> turn list option
    \<Rightarrow> bool \<Rightarrow> pyval \<Rightarrow> (turn list option \<times> string) \<times> client \<times> 'b" where
  "process_message env create ai_client bs message history use_tools temp =
     (if strip message = [] then ((history, []), ai_client, bs)
      else (let history1 = (case history of Some h \<Rightarrow> h | None \<Rightarrow> [])
                             @ [plain_turn ''user'' (PStr message)]
            in case chat env create ai_client bs message
                      (if use_tools then Some register_tools else None) use_tools temp (PInt 2000) of
                 (response, ai_client', bs') \<Rightarrow>
                   ((Some (history1 @ [plain_turn ''assistant'' response]), []),
                    ai_client', bs')))"

section \<open>A backend for the closed examples\<close>

text \<open>A backend that answers from a prepared list of replies, one per call.\<close>

definition scripted :: "(pyexn + assistant_message) list backend" where
  "scripted replies request =
     (case replies of
        [] \<Rightarrow> (Inl (PyExn ''APIConnectionError'' ''Connection error.''), [])
      | r # rs \<Rightarrow> (r, rs))"

section \<open>Tool calls for the closed examples\<close>

definition call_add_1_2 :: tool_call where
  "call_add_1_2 = \<lparr>call_id = ''call_1'', function_name = ''add'',
                    arguments = ''{\"numbers\": [1, 2]}''\<rparr>"

definition call_divide_10_0 :: tool_call where
  "call_divide_10_0 = \<lparr>call_id = ''call_2'', function_name = ''divide'',
                        arguments = ''{\"a\": 10, \"b\": 0}''\<rparr>"

definition call_factorial_3 :: tool_call where
  "call_factorial_3 = \<lparr>call_id = ''call_3'', function_name = ''factorial'',
                        arguments = ''{\"n\": 3}''\<rparr>"

definition call_divide_malformed :: tool_call where
  \<comment> \<open>the value of \<open>b\<close> is missing\<close>
  "call_divide_malformed = \<lparr>call_id = ''call_4'', function_name = ''divide'',
                             arguments = ''{\"a\": 10, \"b\": }''\<rparr>"

definition call_unknown_malformed :: tool_call where
  \<comment> \<open>a tool the registry does not have, with unquoted keys\<close>
  "call_unknown_malformed = \<lparr>call_id = ''call_5'', function_name = ''get_weather'',
                              arguments = ''{city: Paris}''\<rparr>"

definition call_unknown :: tool_call where
  "call_unknown = \<lparr>call_id = ''call_6'', function_name = ''get_weather'',
                    arguments = ''{\"city\": \"Paris\"}''\<rparr>"

definition temperature_0_7 :: pyval where
  "temperature_0_7 = PFloat (Finite (7 / 10))"

definition fresh_client :: client where
  "fresh_client = \<lparr>conversation_history = [], max_history = 50\<rparr>"

section \<open>The factorial tool\<close>

lemma math_factorial_fact: "math_factorial n = fact n"
  by (induction n) simp_all

text \<open>
  C10. For every integer \<open>n\<close>, the factorial tool returns an error text, and does not
  raise, when \<open>n < 0\<close> and when \<open>n > 20\<close>; for \<open>0 \<le> n \<le> 20\<close> it returns a text that
  starts with the decimal numeral of \<open>n!\<close>. The registry describes the tool as
  "Calculate factorial" with the one parameter \<open>n\<close>: the bound of 20 is not part of what
  it publishes.
\<close>

theorem factorial_on_integers:
  "(n < 0 \<longrightarrow> factorial env (PInt n)
        = Inr (PStr ''Error: Factorial undefined for negative numbers''))
 \<and> (n > 20 \<longrightarrow> factorial env (PInt n)
        = Inr (PStr (''Error: Factorial limited to n '' @ leq_sign @ '' 20'')))
 \<and> (0 \<le> n \<and> n \<le> 20 \<longrightarrow> (\<exists>calc. factorial env (PInt n)
        = Inr (PStr (''Result: '' @ str_int (fact (nat n)) @ ''\<newline>Calculation: '' @ calc))))
 \<and> get_tool register_tools ''factorial''
        = Some \<lparr>func = Calc_factorial, description = ''Calculate factorial'', parameters = [''n'']\<rparr>"
proof (intro conjI impI)
  assume "n < 0"
  then show "factorial env (PInt n) = Inr (PStr ''Error: Factorial undefined for negative numbers'')"
    by (simp add: factorial_def)
next
  assume "n > 20"
  then show "factorial env (PInt n)
      = Inr (PStr (''Error: Factorial limited to n '' @ leq_sign @ '' 20''))"
    by (simp add: factorial_def)
next
  assume "0 \<le> n \<and> n \<le> 20"
  then have "factorial env (PInt n) = Inr (PStr (factorial_text (str_int n) n))"
    by (simp add: factorial_def)
  moreover have "str_int (fact (nat n)) = str_nat (math_factorial (nat n))"
  proof -
    have "(fact (nat n) :: int) = int (math_factorial (nat n))"
      by (simp add: math_factorial_fact)
    then show ?thesis
      by (simp add: str_int_def)
  qed
  ultimately show "\<exists>calc. factorial env (PInt n)
        = Inr (PStr (''Result: '' @ str_int (fact (nat n)) @ ''\<newline>Calculation: '' @ calc))"
    by (simp add: factorial_text_def Let_def)
next
  show "get_tool register_tools ''factorial''
        = Some \<lparr>func = Calc_factorial, description = ''Calculate factorial'', parameters = [''n'']\<rparr>"
    by (simp add: get_tool_def register_tools_def)
qed

theorem factorial_on_integers_witness:
  "factorial bare_env (PInt (- 3)) = Inr (PStr ''Error: Factorial undefined for negative numbers'')
 \<and> factorial bare_env (PInt 21) = Inr (PStr (''Error: Factorial limited to n '' @ leq_sign @ '' 20''))
 \<and> (\<exists>calc. factorial bare_env (PInt 5)
        = Inr (PStr (''Result: '' @ str_int 120 @ ''\<newline>Calculation: '' @ calc)))"
  using factorial_on_integers [of "- 3" bare_env] factorial_on_integers [of 21 bare_env]
    factorial_on_integers [of 5 bare_env]
  by (simp add: fact_numeral)

text \<open>The whole text for \<open>n = 5\<close>, with the steps the tool spells out up to 5.\<close>

lemma factorial_5:
  "factorial env (PInt 5)
     = Inr (PStr (''Result: 120\<newline>Calculation: 5! = 1 '' @ times_sign @ '' 2 '' @ times_sign
                   @ '' 3 '' @ times_sign @ '' 4 '' @ times_sign @ '' 5 = 120''))"
  by code_simp

section \<open>The empty sum and the empty product\<close>

lemma str_int_0: "str_int 0 = ''0''"
  by code_simp

lemma str_int_1: "str_int 1 = ''1''"
  by code_simp

lemma printable_0_1: "printable 0 \<and> printable 1"
  by code_simp

lemma add_no_numbers: "add env [] = Inr (PStr ''Result: 0\<newline>Calculation:  = 0'')"
  by (simp add: add_def str_int_0 printable_0_1)

lemma multiply_no_numbers: "multiply env [] = Inr (PStr ''Result: 1\<newline>Calculation:  = 1'')"
  by (simp add: multiply_def str_int_1 printable_0_1)

lemma get_tool_add:
  "get_tool register_tools ''add''
     = Some \<lparr>func = Calc_add, description = ''Add numbers'', parameters = [''*numbers'']\<rparr>"
  by (simp add: get_tool_def register_tools_def)

lemma get_tool_multiply:
  "get_tool register_tools ''multiply''
     = Some \<lparr>func = Calc_multiply, description = ''Multiply numbers'', parameters = [''*numbers'']\<rparr>"
  by (simp add: get_tool_def register_tools_def)

lemma no_numbers_no_args:
  assumes "map_of kv ''numbers'' = None \<or> map_of kv ''numbers'' = Some (PList [])"
    and "fname = ''add'' \<or> fname = ''multiply''"
  shows "invoke_tool env tool fname (PDict kv) = call_func env (func tool) [] []"
  using assms by (auto simp: invoke_tool_def dict_get_def star_args_def)

text \<open>
  C9. When a call named \<open>add\<close> (respectively \<open>multiply\<close>) is dispatched against the
  application's registry and its decoded arguments are a dict without the key
  \<open>numbers\<close>, or with an empty array under it, the tool is called with no positional
  argument and no keyword, and the tool result carries the success text of the empty sum,
  result 0 (respectively of the empty product, result 1).
\<close>

theorem empty_sum_and_product:
  assumes "json_loads env (arguments tc) = Inr (PDict kv)"
    and "map_of kv ''numbers'' = None \<or> map_of kv ''numbers'' = Some (PList [])"
  shows "(function_name tc = ''add'' \<longrightarrow>
            (\<exists>tool. get_tool register_tools ''add'' = Some tool
               \<and> invoke_tool env tool ''add'' (PDict kv) = call_func env (func tool) [] [])
          \<and> execute_tool_call env (Some register_tools) tc
               = Inr (tool_turn tc (PStr ''Result: 0\<newline>Calculation:  = 0'')))
       \<and> (function_name tc = ''multiply'' \<longrightarrow>
            (\<exists>tool. get_tool register_tools ''multiply'' = Some tool
               \<and> invoke_tool env tool ''multiply'' (PDict kv) = call_func env (func tool) [] [])
          \<and> execute_tool_call env (Some register_tools) tc
               = Inr (tool_turn tc (PStr ''Result: 1\<newline>Calculation:  = 1'')))"
proof (intro conjI impI)
  show "\<exists>tool. get_tool register_tools ''add'' = Some tool
      \<and> invoke_tool env tool ''add'' (PDict kv) = call_func env (func tool) [] []"
    using no_numbers_no_args [OF assms(2)] get_tool_add by simp
next
  assume "function_name tc = ''add''"
  then show "execute_tool_call env (Some register_tools) tc
      = Inr (tool_turn tc (PStr ''Result: 0\<newline>Calculation:  = 0''))"
    using assms(1) no_numbers_no_args [OF assms(2), of "''add''"]
    by (simp add: execute_tool_call_def get_tool_add call_func_def run_func_def add_no_numbers)
next
  show "\<exists>tool. get_tool register_tools ''multiply'' = Some tool
      \<and> invoke_tool env tool ''multiply'' (PDict kv) = call_func env (func tool) [] []"
    using no_numbers_no_args [OF assms(2)] get_tool_multiply by simp
next
  assume "function_name tc = ''multiply''"
  then show "execute_tool_call env (Some register_tools) tc
      = Inr (tool_turn tc (PStr ''Result: 1\<newline>Calculation:  = 1''))"
    using assms(1) no_numbers_no_args [OF assms(2), of "''multiply''"]
    by (simp add: execute_tool_call_def get_tool_multiply call_func_def run_func_def
        multiply_no_numbers)
qed

lemma loads_empty_object: "json_loads env ''{}'' = Inr (PDict [])"
  by code_simp

lemma loads_empty_numbers:
  "json_loads env ''{\"numbers\": []}'' = Inr (PDict [(''numbers'', PList [])])"
  by code_simp

theorem empty_sum_and_product_witness:
  "execute_tool_call bare_env (Some register_tools)
       \<lparr>call_id = ''call_1'', function_name = ''add'', arguments = ''{}''\<rparr>
     = Inr \<lparr>role = ''tool'', content = PStr ''Result: 0\<newline>Calculation:  = 0'',
            tool_calls = None, tool_call_id = Some ''call_1'', name = Some ''add''\<rparr>
   \<and> execute_tool_call bare_env (Some register_tools)
       \<lparr>call_id = ''call_2'', function_name = ''multiply'', arguments = ''{\"numbers\": []}''\<rparr>
     = Inr \<lparr>role = ''tool'', content = PStr ''Result: 1\<newline>Calculation:  = 1'',
            tool_calls = None, tool_call_id = Some ''call_2'', name = Some ''multiply''\<rparr>"
  using empty_sum_and_product [of bare_env
          "\<lparr>call_id = ''call_1'', function_name = ''add'', arguments = ''{}''\<rparr>" "[]"]
    empty_sum_and_product [of bare_env
          "\<lparr>call_id = ''call_2'', function_name = ''multiply'', arguments = ''{\"numbers\": []}''\<rparr>"
          "[(''numbers'', PList [])]"]
  by (simp add: loads_empty_object loads_empty_numbers tool_turn_def)

section \<open>A blank message\<close>

lemma blank_strip:
  assumes "\<forall>c \<in> set (utf8_chars message). isspace c"
  shows "strip message = []"
proof -
  have none_left: "dropWhile isspace (utf8_chars message) = []"
    using assms by simp
  show ?thesis
    unfolding strip_def none_left by simp
qed

text \<open>
  C4. A message that is empty or made of whitespace characters only changes nothing:
  \<open>process_message\<close> returns the history it was given, and the client with its
  conversation history and the backend are as before (\<open>chat\<close> is not called).
\<close>

theorem blank_message_is_noop:
  assumes "\<forall>c \<in> set (utf8_chars message). isspace c"
  shows "process_message env create ai_client bs message history use_tools temp
           = ((history, []), ai_client, bs)
       \<and> get_history_length ai_client = length (conversation_history ai_client)"
  using blank_strip [OF assms] by (simp add: process_message_def get_history_length_def)

lemma utf8_chars_blank:
  "utf8_chars [CHR '' '', CHR 0x09, CHR 0xC2, CHR 0xA0, CHR 0x0A]
     = [[CHR '' ''], [CHR 0x09], [CHR 0xC2, CHR 0xA0], [CHR 0x0A]]"
  by (simp add: utf8_chars_def is_cont_def)

lemma blank_chars:
  "isspace [CHR '' ''] \<and> isspace [CHR 0x09] \<and> isspace [CHR 0xC2, CHR 0xA0] \<and> isspace [CHR 0x0A]"
  by (simp add: isspace_def whitespace_chars_def)

theorem blank_message_is_noop_witness:
  "process_message bare_env scripted
       \<lparr>conversation_history = [plain_turn ''user'' (PStr ''hi'')], max_history = 50\<rparr>
       [Inr \<lparr>message_content = PStr ''hello'', message_tool_calls = None\<rparr>]
       [CHR '' '', CHR 0x09, CHR 0xC2, CHR 0xA0, CHR 0x0A]
       (Some [plain_turn ''user'' (PStr ''hi'')]) True (PFloat (Finite (7 / 10)))
     = ((Some [plain_turn ''user'' (PStr ''hi'')], []),
        \<lparr>conversation_history = [plain_turn ''user'' (PStr ''hi'')], max_history = 50\<rparr>,
        [Inr \<lparr>message_content = PStr ''hello'', message_tool_calls = None\<rparr>])"
  using blank_message_is_noop [of "[CHR '' '', CHR 0x09, CHR 0xC2, CHR 0xA0, CHR 0x0A]"
      bare_env scripted
      "\<lparr>conversation_history = [plain_turn ''user'' (PStr ''hi'')], max_history = 50\<rparr>"
      "[Inr \<lparr>message_content = PStr ''hello'', message_tool_calls = None\<rparr>]"
      "Some [plain_turn ''user'' (PStr ''hi'')]" True "PFloat (Finite (7 / 10))"]
    blank_chars
  by (simp add: utf8_chars_blank)

text \<open>The guard is \<open>process_message\<close>'s: \<open>chat\<close> itself appends a blank message.\<close>

lemma chat_appends_blank:
  "chat bare_env scripted \<lparr>conversation_history = [], max_history = 50\<rparr>
       [Inr \<lparr>message_content = PStr ''hello'', message_tool_calls = None\<rparr>]
       '' '' None False (PFloat (Finite (7 / 10))) (PInt 2000)
     = (PStr ''hello'',
        \<lparr>conversation_history = [plain_turn ''user'' (PStr '' ''), plain_turn ''assistant'' (PStr ''hello'')],
         max_history = 50\<rparr>, [])"
  by (simp add: chat_def scripted_def append_turns_def Let_def)

section \<open>The window of history sent to the backend\<close>

text \<open>
  C5. The history of one stored turn with \<open>max_history = 0\<close>: the snapshot should be
  the system message followed by the last 0 stored turns. The slice
  \<open>conversation_history[-0:]\<close> is the whole list, and the stored turn is sent.
\<close>

theorem history_limit_zero:
  "prepare_messages
       \<lparr>conversation_history = [plain_turn ''user'' (PStr ''hello'')], max_history = 0\<rparr>
     = [system_message, plain_turn ''user'' (PStr ''hello'')]
   \<and> get_history_length
       \<lparr>conversation_history = [plain_turn ''user'' (PStr ''hello'')], max_history = 0\<rparr> = 1"
  by (simp add: prepare_messages_def slice_from_def get_history_length_def)

text \<open>
  With a positive \<open>max_history\<close> the snapshot is the system message followed by the last
  \<open>max_history\<close> stored turns, all of them when there are no more than that, and the
  length reported is the number of stored turns.
\<close>

theorem history_window:
  assumes "0 < max_history self"
  shows "prepare_messages self
           = system_message # drop (length (conversation_history self) - nat (max_history self))
                                (conversation_history self)
       \<and> (int (length (conversation_history self)) > max_history self
            \<longrightarrow> length (prepare_messages self) = nat (max_history self) + 1)
       \<and> (int (length (conversation_history self)) \<le> max_history self
            \<longrightarrow> prepare_messages self = system_message # conversation_history self)
       \<and> get_history_length self = length (conversation_history self)"
proof -
  have "nat (int (length (conversation_history self)) - max_history self)
          = length (conversation_history self) - nat (max_history self)"
    using assms by linarith
  then have window: "prepare_messages self
           = system_message # drop (length (conversation_history self) - nat (max_history self))
                                (conversation_history self)"
    using assms by (auto simp: prepare_messages_def slice_from_def Let_def)
  have "int (length (conversation_history self)) > max_history self
           \<longrightarrow> length (prepare_messages self) = nat (max_history self) + 1"
    using assms window by auto
  moreover have "int (length (conversation_history self)) \<le> max_history self
            \<longrightarrow> prepare_messages self = system_message # conversation_history self"
    by (simp add: prepare_messages_def)
  ultimately show ?thesis
    using window by (simp add: get_history_length_def)
qed

theorem history_window_witness:
  "prepare_messages
      \<lparr>conversation_history = [plain_turn ''user'' (PStr ''one''),
                                plain_turn ''assistant'' (PStr ''two''),
                                plain_turn ''user'' (PStr ''three'')], max_history = 2\<rparr>
     = [system_message, plain_turn ''assistant'' (PStr ''two''), plain_turn ''user'' (PStr ''three'')]
   \<and> get_history_length
      \<lparr>conversation_history = [plain_turn ''user'' (PStr ''one''),
                                plain_turn ''assistant'' (PStr ''two''),
                                plain_turn ''user'' (PStr ''three'')], max_history = 2\<rparr> = 3"
  using history_window [of "\<lparr>conversation_history = [plain_turn ''user'' (PStr ''one''),
                                plain_turn ''assistant'' (PStr ''two''),
                                plain_turn ''user'' (PStr ''three'')], max_history = 2\<rparr>"]
  by simp

section \<open>The schema of a tool's parameters\<close>

lemma map_of_dict_set: "map_of (dict_set kvs k v) = (map_of kvs)(k \<mapsto> v)"
  by (induction kvs) auto

lemma add_parameter_required:
  "required (add_parameter ps param)
     = required ps @ (if \<not> contains param ''(optional)'' \<and> \<not> startswith param ''*''
                      then [param_name param] else [])"
  by (simp add: add_parameter_def Let_def)

lemma add_parameter_properties:
  "map_of (properties (add_parameter ps param))
     = (map_of (properties ps))(param_name param \<mapsto>
          \<lparr>prop_type = (if param_name param \<in> set numeric_names then ''number'' else ''string''),
           prop_description = ''Parameter: '' @ param\<rparr>)"
  by (simp add: add_parameter_def Let_def map_of_dict_set)

lemma foldl_required:
  "required (foldl add_parameter ps params)
     = required ps
       @ map param_name (filter (\<lambda>q. \<not> contains q ''(optional)'' \<and> \<not> startswith q ''*'') params)"
  by (induction params arbitrary: ps) (simp_all add: add_parameter_required)

lemma foldl_typed:
  assumes "\<And>k p. map_of (properties ps) k = Some p
             \<Longrightarrow> prop_type p = (if k \<in> set numeric_names then ''number'' else ''string'')"
    and "map_of (properties (foldl add_parameter ps params)) k = Some p"
  shows "prop_type p = (if k \<in> set numeric_names then ''number'' else ''string'')"
  using assms
proof (induction params arbitrary: ps)
  case Nil
  then show ?case by simp
next
  case (Cons param params)
  show ?case
  proof (rule Cons.IH [of "add_parameter ps param"])
    fix k' p'
    assume "map_of (properties (add_parameter ps param)) k' = Some p'"
    then show "prop_type p' = (if k' \<in> set numeric_names then ''number'' else ''string'')"
      using Cons.prems(1) [of k' p']
      by (cases "k' = param_name param") (auto simp: add_parameter_properties)
  next
    show "map_of (properties (foldl add_parameter (add_parameter ps param) params)) k = Some p"
      using Cons.prems(2) by simp
  qed
qed

lemma foldl_keys:
  "dom (map_of (properties (foldl add_parameter ps params)))
     = dom (map_of (properties ps)) \<union> param_name ` set params"
  by (induction params arbitrary: ps) (auto simp: add_parameter_properties)

text \<open>
  C6, as the translator has it. Every parameter of a tool, declared with \<open>*\<close> or not, is
  one property of the schema, under its declared name without \<open>(optional)\<close> and without
  \<open>*\<close>; the property has type number exactly when that key is one of \<open>a\<close>, \<open>b\<close>,
  \<open>value\<close>, \<open>n\<close>, \<open>precision\<close>, and type string otherwise. The required list holds, in
  order, the keys of the parameters whose declared name has no \<open>(optional)\<close> and does not
  start with \<open>*\<close>. The schemas come one per tool, in the registry's order.
\<close>

theorem schema_of_parameters:
  "(param \<in> set (parameters tool_info) \<longrightarrow>
      (\<exists>p. map_of (properties (fn_parameters (function_definition tool_name tool_info)))
              (param_name param) = Some p
          \<and> prop_type p = (if param_name param \<in> set numeric_names then ''number'' else ''string'')))
 \<and> required (fn_parameters (function_definition tool_name tool_info))
      = map param_name
          (filter (\<lambda>q. \<not> contains q ''(optional)'' \<and> \<not> startswith q ''*'') (parameters tool_info))
 \<and> map fn_name (get_function_definitions tool_registry) = map fst tool_registry"
proof (intro conjI impI)
  let ?ps = "\<lparr>schema_type = ''object'', properties = [], required = []\<rparr>"
  assume "param \<in> set (parameters tool_info)"
  then have "param_name param
      \<in> dom (map_of (properties (foldl add_parameter ?ps (parameters tool_info))))"
    by (simp add: foldl_keys)
  then obtain p where p:
    "map_of (properties (foldl add_parameter ?ps (parameters tool_info))) (param_name param) = Some p"
    by blast
  have "prop_type p = (if param_name param \<in> set numeric_names then ''number'' else ''string'')"
    by (rule foldl_typed [of ?ps _ _ p, OF _ p]) simp
  then show "\<exists>p. map_of (properties (fn_parameters (function_definition tool_name tool_info)))
              (param_name param) = Some p
          \<and> prop_type p = (if param_name param \<in> set numeric_names then ''number'' else ''string'')"
    using p by (simp add: function_definition_def)
next
  show "required (fn_parameters (function_definition tool_name tool_info))
      = map param_name
          (filter (\<lambda>q. \<not> contains q ''(optional)'' \<and> \<not> startswith q ''*'') (parameters tool_info))"
    by (simp add: function_definition_def foldl_required)
next
  show "map fn_name (get_function_definitions tool_registry) = map fst tool_registry"
    by (induction tool_registry)
      (auto simp: get_function_definitions_def get_all_tools_def function_definition_def)
qed

lemma param_name_examples:
  "param_name ''precision (optional)'' = ''precision'' \<and> param_name ''*numbers'' = ''numbers''
   \<and> param_name ''a'' = ''a'' \<and> param_name ''b'' = ''b''"
  by (simp add: param_name_def str_replace_def)

theorem schema_of_parameters_witness:
  "(\<exists>p. map_of (properties (fn_parameters (function_definition ''divide''
              \<lparr>func = Calc_divide, description = ''Divide two numbers'',
               parameters = [''a'', ''b'', ''precision (optional)'']\<rparr>))) ''precision'' = Some p
        \<and> prop_type p = ''number'')
   \<and> required (fn_parameters (function_definition ''divide''
              \<lparr>func = Calc_divide, description = ''Divide two numbers'',
               parameters = [''a'', ''b'', ''precision (optional)'']\<rparr>)) = [''a'', ''b'']"
  using schema_of_parameters [of "''precision (optional)''"
      "\<lparr>func = Calc_divide, description = ''Divide two numbers'',
        parameters = [''a'', ''b'', ''precision (optional)'']\<rparr>" "''divide''" "[]"]
  by (simp add: param_name_examples numeric_names_def)

text \<open>
  The schema the application's registry gives \<open>add\<close>: its \<open>*numbers\<close> is the property
  \<open>numbers\<close> of type string, where the specification has an array.
\<close>

theorem variadic_is_string_typed:
  "map fn_parameters (filter (\<lambda>f. fn_name f = ''add'') (get_function_definitions register_tools))
     = [\<lparr>schema_type = ''object'',
         properties = [(''numbers'', \<lparr>prop_type = ''string'',
                                     prop_description = ''Parameter: *numbers''\<rparr>)],
         required = []\<rparr>]"
  by (simp add: get_function_definitions_def get_all_tools_def register_tools_def
      function_definition_def add_parameter_def param_name_def str_replace_def
      numeric_names_def Let_def)

section \<open>The dispatch loop\<close>

lemma append_turns_twice: "append_turns (append_turns self xs) ys = append_turns self (xs @ ys)"
  by (simp add: append_turns_def)

lemma execute_tool_calls_acc:
  "execute_tool_calls env reg calls acc
     = (case execute_tool_calls env reg calls [] of Inl e \<Rightarrow> Inl e | Inr rs \<Rightarrow> Inr (acc @ rs))"
proof (induction calls arbitrary: acc)
  case Nil
  show ?case by simp
next
  case (Cons tc tcs)
  show ?case
    using Cons.IH [of "acc @ [t]" for t] Cons.IH [of "[t]" for t]
    by (simp split: sum.splits)
qed

lemma execute_tool_calls_Cons:
  "execute_tool_calls env reg (tc # tcs) []
     = (case execute_tool_call env reg tc of
          Inl e \<Rightarrow> Inl e
        | Inr t \<Rightarrow> (case execute_tool_calls env reg tcs [] of
                      Inl e \<Rightarrow> Inl e
                    | Inr rs \<Rightarrow> Inr (t # rs)))"
  using execute_tool_calls_acc [of env reg tcs "[t]" for t]
  by (simp split: sum.splits)

lemma execute_tool_calls_append:
  "execute_tool_calls env reg (xs @ ys) []
     = (case execute_tool_calls env reg xs [] of
          Inl e \<Rightarrow> Inl e
        | Inr rs \<Rightarrow> (case execute_tool_calls env reg ys [] of
                       Inl e \<Rightarrow> Inl e
                     | Inr rs' \<Rightarrow> Inr (rs @ rs')))"
proof (induction xs)
  case Nil
  show ?case by (simp split: sum.splits)
next
  case (Cons x xs)
  show ?case
    using Cons.IH
    by (simp add: execute_tool_calls_Cons del: execute_tool_calls.simps split: sum.splits)
qed

lemma handle_tool_calls_raised:
  assumes "execute_tool_calls env reg calls [] = Inl e"
  shows "handle_tool_calls env create self bs m calls reg temp maxt
           = (Inl e, append_turns self [assistant_calls_turn m calls], bs)"
  using assms by (simp add: handle_tool_calls_def)

lemma handle_tool_calls_dispatched:
  assumes "execute_tool_calls env reg calls [] = Inr rs"
  shows "handle_tool_calls env create self bs m calls reg temp maxt
           = (case create bs (final_request
                      (append_turns self (assistant_calls_turn m calls # rs)) temp maxt) of
                (Inl e, bs') \<Rightarrow> (Inl e, append_turns self (assistant_calls_turn m calls # rs), bs')
              | (Inr final_response, bs') \<Rightarrow>
                  (Inr (message_content final_response),
                   append_turns self (assistant_calls_turn m calls # rs
                      @ [plain_turn ''assistant'' (message_content final_response)]), bs'))"
  using assms
  by (simp add: handle_tool_calls_def append_turns_twice Let_def split: prod.splits sum.splits)

lemma chat_with_calls:
  assumes "create bs (first_request (append_turns self [plain_turn ''user'' (PStr message)])
                        reg use_tools temp maxt) = (Inr m, bs1)"
    and "message_tool_calls m = Some calls" and "calls \<noteq> []"
  shows "chat env create self bs message reg use_tools temp maxt
           = (case handle_tool_calls env create
                     (append_turns self [plain_turn ''user'' (PStr message)]) bs1 m calls
                     reg temp maxt of
                (Inl e, self2, bs2) \<Rightarrow> (error_text e, self2, bs2)
              | (Inr final_text, self2, bs2) \<Rightarrow> (final_text, self2, bs2))"
proof (cases calls)
  case Nil
  then show ?thesis using assms(3) by simp
next
  case (Cons tc tcs)
  then show ?thesis
    using assms(1,2) by (simp add: chat_def Let_def)
qed

subsection \<open>Payloads that decode\<close>

lemma decoded_call_gives_turn:
  assumes "json_loads env (arguments tc) = Inr v"
  shows "\<exists>c. execute_tool_call env (Some reg) tc = Inr (tool_turn tc c)"
  using assms by (auto simp: execute_tool_call_def split: option.splits sum.splits)

text \<open>
  When every payload of a batch decodes, the loop appends one tool result per call, in the
  order of the calls, each under the id and the name of its call.
\<close>

theorem paired_results:
  assumes "\<forall>tc \<in> set calls. \<exists>v. json_loads env (arguments tc) = Inr v"
  shows "\<exists>rs. execute_tool_calls env (Some reg) calls [] = Inr rs
           \<and> length rs = length calls
           \<and> map tool_call_id rs = map (\<lambda>tc. Some (call_id tc)) calls
           \<and> map name rs = map (\<lambda>tc. Some (function_name tc)) calls
           \<and> (\<forall>t \<in> set rs. role t = ''tool'')"
  using assms
proof (induction calls)
  case Nil
  show ?case by simp
next
  case (Cons tc tcs)
  obtain c where c: "execute_tool_call env (Some reg) tc = Inr (tool_turn tc c)"
    using Cons.prems decoded_call_gives_turn by (metis list.set_intros(1))
  obtain rs where rs: "execute_tool_calls env (Some reg) tcs [] = Inr rs"
      "length rs = length tcs"
      "map tool_call_id rs = map (\<lambda>tc. Some (call_id tc)) tcs"
      "map name rs = map (\<lambda>tc. Some (function_name tc)) tcs"
      "\<forall>t \<in> set rs. role t = ''tool''"
    using Cons by auto
  show ?case
    using c rs by (simp add: execute_tool_calls_Cons tool_turn_def del: execute_tool_calls.simps)
qed

text \<open>A decoded call to a tool the registry does not have gives the "not found" result.\<close>

theorem unknown_tool_turn:
  assumes "json_loads env (arguments tc) = Inr v" and "get_tool reg (function_name tc) = None"
  shows "execute_tool_call env (Some reg) tc
           = Inr (tool_turn tc (PStr (''Tool '' @ quoted (function_name tc) @ '' not found'')))"
  using assms by (simp add: execute_tool_call_def)

subsection \<open>The example calls\<close>

lemma loads_add_1_2:
  "json_loads env (arguments call_add_1_2) = Inr (PDict [(''numbers'', PList [PInt 1, PInt 2])])"
  unfolding call_add_1_2_def by code_simp

lemma loads_divide_10_0:
  "json_loads env (arguments call_divide_10_0) = Inr (PDict [(''a'', PInt 10), (''b'', PInt 0)])"
  unfolding call_divide_10_0_def by code_simp

lemma loads_factorial_3:
  "json_loads env (arguments call_factorial_3) = Inr (PDict [(''n'', PInt 3)])"
  unfolding call_factorial_3_def by code_simp

lemma loads_unknown:
  "json_loads env (arguments call_unknown) = Inr (PDict [(''city'', PStr ''Paris'')])"
  unfolding call_unknown_def by code_simp

lemma loads_divide_malformed:
  "json_loads env (arguments call_divide_malformed) = Inl json_decode_error"
  unfolding call_divide_malformed_def by code_simp

lemma loads_unknown_malformed:
  "json_loads env (arguments call_unknown_malformed) = Inl json_decode_error"
  unfolding call_unknown_malformed_def by code_simp

lemma add_1_2: "add env [PInt 1, PInt 2] = Inr (PStr ''Result: 3\<newline>Calculation: 1 + 2 = 3'')"
  by code_simp

lemma factorial_3:
  "factorial env (PInt 3)
     = Inr (PStr (''Result: 6\<newline>Calculation: 3! = 1 '' @ times_sign @ '' 2 '' @ times_sign
                   @ '' 3 = 6''))"
  by code_simp

lemma run_add_1_2:
  "execute_tool_call env (Some register_tools) call_add_1_2
     = Inr (tool_turn call_add_1_2 (PStr ''Result: 3\<newline>Calculation: 1 + 2 = 3''))"
  using loads_add_1_2 [of env]
  by (simp add: execute_tool_call_def get_tool_add invoke_tool_def dict_get_def star_args_def
      call_func_def run_func_def add_1_2 call_add_1_2_def)

lemma get_tool_factorial:
  "get_tool register_tools ''factorial''
     = Some \<lparr>func = Calc_factorial, description = ''Calculate factorial'', parameters = [''n'']\<rparr>"
  by (simp add: get_tool_def register_tools_def)

lemma run_factorial_3:
  "execute_tool_call env (Some register_tools) call_factorial_3
     = Inr (tool_turn call_factorial_3
              (PStr (''Result: 6\<newline>Calculation: 3! = 1 '' @ times_sign @ '' 2 '' @ times_sign
                      @ '' 3 = 6'')))"
  using loads_factorial_3 [of env]
  by (simp add: execute_tool_call_def get_tool_factorial invoke_tool_def double_star_def
      call_func_def bind_params_def run_func_def factorial_3 call_factorial_3_def)

section \<open>A payload that does not decode\<close>

text \<open>
  \<open>json.loads\<close> is called before the registry is consulted and outside the \<open>try\<close> that
  guards the tool: its exception leaves the loop, and \<open>_handle_tool_calls\<close> with it, before
  \<open>tool_results\<close> is added to the history.
\<close>

lemma undecoded_call_raises:
  assumes "json_loads env (arguments tc) = Inl e"
  shows "execute_tool_call env reg tc = Inl e"
  using assms by (simp add: execute_tool_call_def)

text \<open>
  C2. A batch of three calls whose second payload is malformed: no error tool result is
  made for the second call, the third call is never dispatched, and the whole turn ends with
  the error string of \<open>chat\<close>; the reply prepared for the second backend call is not
  consumed.
\<close>

theorem malformed_payload_aborts_dispatch:
  "execute_tool_calls bare_env (Some register_tools)
       [call_add_1_2, call_divide_malformed, call_factorial_3] []
     = Inl json_decode_error
   \<and> chat bare_env scripted fresh_client
       [Inr \<lparr>message_content = PNone,
             message_tool_calls = Some [call_add_1_2, call_divide_malformed, call_factorial_3]\<rparr>,
        Inr \<lparr>message_content = PStr ''done'', message_tool_calls = None\<rparr>]
       ''add 1 and 2, divide 10, and give me 3!'' (Some register_tools) True
       temperature_0_7 (PInt 2000)
     = (error_text json_decode_error,
        \<lparr>conversation_history =
           [plain_turn ''user'' (PStr ''add 1 and 2, divide 10, and give me 3!''),
            assistant_calls_turn \<lparr>message_content = PNone,
                 message_tool_calls = Some [call_add_1_2, call_divide_malformed, call_factorial_3]\<rparr>
              [call_add_1_2, call_divide_malformed, call_factorial_3]],
         max_history = 50\<rparr>,
        [Inr \<lparr>message_content = PStr ''done'', message_tool_calls = None\<rparr>])"
proof -
  have raised: "execute_tool_calls bare_env (Some register_tools)
       [call_add_1_2, call_divide_malformed, call_factorial_3] [] = Inl json_decode_error"
    by (simp add: run_add_1_2 undecoded_call_raises [OF loads_divide_malformed])
  show ?thesis
    by (simp add: raised chat_def handle_tool_calls_def scripted_def fresh_client_def
        append_turns_def Let_def del: execute_tool_calls.simps)
qed

text \<open>
  C1. A response with two tool-call requests, the second with a malformed payload:
  \<open>_handle_tool_calls\<close> appends the assistant turn and no tool-result turn at all, and
  raises.
\<close>

theorem tool_results_lost:
  "handle_tool_calls bare_env scripted
       \<lparr>conversation_history = [plain_turn ''user'' (PStr ''add 1 and 2, then divide 10'')],
        max_history = 50\<rparr>
       [Inr \<lparr>message_content = PStr ''done'', message_tool_calls = None\<rparr>]
       \<lparr>message_content = PNone, message_tool_calls = Some [call_add_1_2, call_divide_malformed]\<rparr>
       [call_add_1_2, call_divide_malformed] (Some register_tools) temperature_0_7 (PInt 2000)
     = (Inl json_decode_error,
        \<lparr>conversation_history =
           [plain_turn ''user'' (PStr ''add 1 and 2, then divide 10''),
            assistant_calls_turn
              \<lparr>message_content = PNone,
               message_tool_calls = Some [call_add_1_2, call_divide_malformed]\<rparr>
              [call_add_1_2, call_divide_malformed]],
         max_history = 50\<rparr>,
        [Inr \<lparr>message_content = PStr ''done'', message_tool_calls = None\<rparr>])"
proof -
  have "execute_tool_calls bare_env (Some register_tools)
       [call_add_1_2, call_divide_malformed] [] = Inl json_decode_error"
    by (simp add: run_add_1_2 undecoded_call_raises [OF loads_divide_malformed])
  then show ?thesis
    by (simp add: handle_tool_calls_raised append_turns_def del: execute_tool_calls.simps)
qed

text \<open>
  C7. A call to \<open>get_weather\<close>, which the registry does not have, with a malformed
  payload: the dispatch of this call raises, and no "not found" result is made. And a
  decoded call to the same tool followed by a call with a malformed payload: the
  "not found" result is made and then lost with the batch.
\<close>

theorem unknown_tool_can_raise:
  "get_tool register_tools (function_name call_unknown_malformed) = None
   \<and> execute_tool_call bare_env (Some register_tools) call_unknown_malformed
       = Inl json_decode_error
   \<and> execute_tool_call bare_env (Some register_tools) call_unknown
       = Inr (tool_turn call_unknown (PStr (''Tool '' @ quoted ''get_weather'' @ '' not found'')))
   \<and> handle_tool_calls bare_env scripted fresh_client
       [Inr \<lparr>message_content = PStr ''done'', message_tool_calls = None\<rparr>]
       \<lparr>message_content = PNone, message_tool_calls = Some [call_unknown, call_divide_malformed]\<rparr>
       [call_unknown, call_divide_malformed] (Some register_tools) temperature_0_7 (PInt 2000)
     = (Inl json_decode_error,
        \<lparr>conversation_history =
           [assistant_calls_turn
              \<lparr>message_content = PNone,
               message_tool_calls = Some [call_unknown, call_divide_malformed]\<rparr>
              [call_unknown, call_divide_malformed]],
         max_history = 50\<rparr>,
        [Inr \<lparr>message_content = PStr ''done'', message_tool_calls = None\<rparr>])"
proof -
  have absent: "get_tool register_tools ''get_weather'' = None"
    by (simp add: get_tool_def register_tools_def)
  have found_not: "execute_tool_call bare_env (Some register_tools) call_unknown
       = Inr (tool_turn call_unknown (PStr (''Tool '' @ quoted ''get_weather'' @ '' not found'')))"
    using unknown_tool_turn [OF loads_unknown, of register_tools bare_env] absent
    by (simp add: call_unknown_def)
  have "execute_tool_calls bare_env (Some register_tools)
       [call_unknown, call_divide_malformed] [] = Inl json_decode_error"
    by (simp add: found_not undecoded_call_raises [OF loads_divide_malformed])
  then have "handle_tool_calls bare_env scripted fresh_client
       [Inr \<lparr>message_content = PStr ''done'', message_tool_calls = None\<rparr>]
       \<lparr>message_content = PNone, message_tool_calls = Some [call_unknown, call_divide_malformed]\<rparr>
       [call_unknown, call_divide_malformed] (Some register_tools) temperature_0_7 (PInt 2000)
     = (Inl json_decode_error,
        \<lparr>conversation_history =
           [assistant_calls_turn
              \<lparr>message_content = PNone,
               message_tool_calls = Some [call_unknown, call_divide_malformed]\<rparr>
              [call_unknown, call_divide_malformed]],
         max_history = 50\<rparr>,
        [Inr \<lparr>message_content = PStr ''done'', message_tool_calls = None\<rparr>])"
    by (simp add: handle_tool_calls_raised append_turns_def fresh_client_def
        del: execute_tool_calls.simps)
  moreover have "get_tool register_tools (function_name call_unknown_malformed) = None"
    using absent by (simp add: call_unknown_malformed_def)
  ultimately show ?thesis
    using found_not undecoded_call_raises [OF loads_unknown_malformed] by simp
qed

section \<open>A backend call that fails\<close>

text \<open>
  The first reply asks for \<open>factorial(n=3)\<close>, the second call times out: \<open>chat\<close> returns the
  error string, and the history keeps, after the user's message, the assistant turn with
  the tool call and the tool result.
\<close>

theorem second_call_failure_keeps_turns:
  "chat bare_env scripted fresh_client
       [Inr \<lparr>message_content = PNone, message_tool_calls = Some [call_factorial_3]\<rparr>,
        Inl (PyExn ''APITimeoutError'' ''Request timed out.'')]
       ''What is 3!?'' (Some register_tools) True temperature_0_7 (PInt 2000)
     = (PStr ''Error calling Azure OpenAI: Request timed out.'',
        \<lparr>conversation_history =
           [plain_turn ''user'' (PStr ''What is 3!?''),
            assistant_calls_turn
              \<lparr>message_content = PNone, message_tool_calls = Some [call_factorial_3]\<rparr>
              [call_factorial_3],
            tool_turn call_factorial_3
              (PStr (''Result: 6\<newline>Calculation: 3! = 1 '' @ times_sign @ '' 2 '' @ times_sign
                      @ '' 3 = 6''))],
         max_history = 50\<rparr>,
        [])"
  by (simp add: chat_def handle_tool_calls_def run_factorial_3 scripted_def fresh_client_def
      append_turns_def error_text_def Let_def)

text \<open>
  C3, as the code has it. An exception that escapes a backend call is caught by \<open>chat\<close>,
  which returns one error string made from the exception's text and appends no assistant
  turn for the failed call. When the failed call is the first of the turn, the history has
  gained the user's message and nothing else. When it is the second, after the tool calls,
  the history has gained the user's message, the assistant turn that carries the tool
  calls, and the tool results.
\<close>

theorem backend_failure_is_reported:
  "(create bs (first_request (append_turns self [plain_turn ''user'' (PStr message)])
                 tool_registry use_tools temp maxt) = (Inl e, bs1)
      \<longrightarrow> chat env create self bs message tool_registry use_tools temp maxt
            = (PStr (''Error calling Azure OpenAI: '' @ str_exn e),
               append_turns self [plain_turn ''user'' (PStr message)], bs1))
 \<and> (create bs (first_request (append_turns self [plain_turn ''user'' (PStr message)])
                 tool_registry use_tools temp maxt) = (Inr m, bs1)
      \<and> message_tool_calls m = Some calls \<and> calls \<noteq> []
      \<and> execute_tool_calls env tool_registry calls [] = Inr tool_results
      \<and> create bs1 (final_request
             (append_turns self (plain_turn ''user'' (PStr message)
                # assistant_calls_turn m calls # tool_results)) temp maxt) = (Inl e, bs2)
      \<longrightarrow> chat env create self bs message tool_registry use_tools temp maxt
            = (PStr (''Error calling Azure OpenAI: '' @ str_exn e),
               append_turns self (plain_turn ''user'' (PStr message)
                 # assistant_calls_turn m calls # tool_results), bs2))"
proof (intro conjI impI)
  assume "create bs (first_request (append_turns self [plain_turn ''user'' (PStr message)])
                 tool_registry use_tools temp maxt) = (Inl e, bs1)"
  then show "chat env create self bs message tool_registry use_tools temp maxt
            = (PStr (''Error calling Azure OpenAI: '' @ str_exn e),
               append_turns self [plain_turn ''user'' (PStr message)], bs1)"
    by (simp add: chat_def error_text_def Let_def)
next
  assume second: "create bs (first_request (append_turns self [plain_turn ''user'' (PStr message)])
                 tool_registry use_tools temp maxt) = (Inr m, bs1)
      \<and> message_tool_calls m = Some calls \<and> calls \<noteq> []
      \<and> execute_tool_calls env tool_registry calls [] = Inr tool_results
      \<and> create bs1 (final_request
             (append_turns self (plain_turn ''user'' (PStr message)
                # assistant_calls_turn m calls # tool_results)) temp maxt) = (Inl e, bs2)"
  then have "chat env create self bs message tool_registry use_tools temp maxt
           = (case handle_tool_calls env create
                     (append_turns self [plain_turn ''user'' (PStr message)]) bs1 m calls
                     tool_registry temp maxt of
                (Inl e, self2, bs2) \<Rightarrow> (error_text e, self2, bs2)
              | (Inr final_text, self2, bs2) \<Rightarrow> (final_text, self2, bs2))"
    by (intro chat_with_calls) simp_all
  moreover have "handle_tool_calls env create
                     (append_turns self [plain_turn ''user'' (PStr message)]) bs1 m calls
                     tool_registry temp maxt
      = (Inl e, append_turns self (plain_turn ''user'' (PStr message)
                 # assistant_calls_turn m calls # tool_results), bs2)"
    using second by (simp add: handle_tool_calls_dispatched append_turns_twice)
  ultimately show "chat env create self bs message tool_registry use_tools temp maxt
            = (PStr (''Error calling Azure OpenAI: '' @ str_exn e),
               append_turns self (plain_turn ''user'' (PStr message)
                 # assistant_calls_turn m calls # tool_results), bs2)"
    by (simp add: error_text_def)
qed

theorem backend_failure_is_reported_witness:
  "chat bare_env scripted fresh_client [Inl (PyExn ''RateLimitError'' ''Too many requests.'')]
       ''hello'' (Some register_tools) True temperature_0_7 (PInt 2000)
     = (PStr ''Error calling Azure OpenAI: Too many requests.'',
        \<lparr>conversation_history = [plain_turn ''user'' (PStr ''hello'')], max_history = 50\<rparr>, [])
   \<and> chat bare_env scripted fresh_client
       [Inr \<lparr>message_content = PNone, message_tool_calls = Some [call_add_1_2]\<rparr>,
        Inl (PyExn ''RateLimitError'' ''Too many requests.'')]
       ''1 + 2?'' (Some register_tools) True temperature_0_7 (PInt 2000)
     = (PStr ''Error calling Azure OpenAI: Too many requests.'',
        \<lparr>conversation_history =
           [plain_turn ''user'' (PStr ''1 + 2?''),
            assistant_calls_turn
              \<lparr>message_content = PNone, message_tool_calls = Some [call_add_1_2]\<rparr> [call_add_1_2],
            tool_turn call_add_1_2 (PStr ''Result: 3\<newline>Calculation: 1 + 2 = 3'')],
         max_history = 50\<rparr>, [])"
  using backend_failure_is_reported [where create = scripted and self = fresh_client
      and bs = "[Inl (PyExn ''RateLimitError'' ''Too many requests.'')]"
      and message = "''hello''" and tool_registry = "Some register_tools" and use_tools = True
      and temp = temperature_0_7 and maxt = "PInt 2000"
      and e = "PyExn ''RateLimitError'' ''Too many requests.''" and ?bs1.0 = "[]"
      and env = bare_env]
    backend_failure_is_reported [where create = scripted and self = fresh_client
      and bs = "[Inr \<lparr>message_content = PNone, message_tool_calls = Some [call_add_1_2]\<rparr>,
                 Inl (PyExn ''RateLimitError'' ''Too many requests.'')]"
      and message = "''1 + 2?''" and tool_registry = "Some register_tools" and use_tools = True
      and temp = temperature_0_7 and maxt = "PInt 2000"
      and m = "\<lparr>message_content = PNone, message_tool_calls = Some [call_add_1_2]\<rparr>"
      and ?bs1.0 = "[Inl (PyExn ''RateLimitError'' ''Too many requests.'')]"
      and calls = "[call_add_1_2]"
      and tool_results = "[tool_turn call_add_1_2 (PStr ''Result: 3\<newline>Calculation: 1 + 2 = 3'')]"
      and e = "PyExn ''RateLimitError'' ''Too many requests.''" and ?bs2.0 = "[]"
      and env = bare_env]
  by (simp add: scripted_def run_add_1_2 fresh_client_def append_turns_def)

section \<open>Division by zero\<close>

lemma divide_by_zero:
  "py_eq_zero b \<Longrightarrow> divide env a b precision = Inr (PStr ''Error: Division by zero'')"
  by (simp add: divide_def)

lemma call_divide:
  assumes "map_of kv ''a'' = Some a" and "map_of kv ''b'' = Some b"
    and "fst ` set kv \<subseteq> {''a'', ''b'', ''precision''}"
  shows "call_func env Calc_divide [] kv
           = divide env a b (case map_of kv ''precision'' of Some p \<Rightarrow> p | None \<Rightarrow> PInt 2)"
proof -
  have "filter (\<lambda>k. k \<noteq> ''a'' \<and> k \<noteq> ''b'' \<and> k \<noteq> ''precision'') (map fst kv) = []"
    using assms(3) by (auto simp: filter_empty_conv)
  then show ?thesis
    using assms(1,2)
    by (simp add: call_func_def bind_params_def run_func_def split: option.splits)
qed

lemma get_tool_divide:
  "get_tool register_tools ''divide''
      = Some \<lparr>func = Calc_divide, description = ''Divide two numbers'',
              parameters = [''a'', ''b'', ''precision (optional)'']\<rparr>"
  by (simp add: get_tool_def register_tools_def)

lemma divide_call_turn:
  assumes "py_eq_zero b" and "function_name tc = ''divide''"
    and "json_loads env (arguments tc) = Inr (PDict kv)"
    and "map_of kv ''a'' = Some a" and "map_of kv ''b'' = Some b"
    and "fst ` set kv \<subseteq> {''a'', ''b'', ''precision''}"
  shows "execute_tool_call env (Some register_tools) tc
           = Inr (tool_turn tc (PStr ''Error: Division by zero''))"
  using assms(2,3) call_divide [OF assms(4,5,6)] divide_by_zero [OF assms(1)]
  by (simp add: execute_tool_call_def invoke_tool_def double_star_def get_tool_divide)

lemma run_divide_10_0:
  "execute_tool_call env (Some register_tools) call_divide_10_0
     = Inr (tool_turn call_divide_10_0 (PStr ''Error: Division by zero''))"
  by (rule divide_call_turn [where b = "PInt 0" and a = "PInt 10", OF _ _ loads_divide_10_0])
    (simp_all add: call_divide_10_0_def)

text \<open>
  Two rounds with \<open>divide(a=10, b=0)\<close> that do not end in a final assistant turn. In the
  first the second backend call is made and times out: \<open>chat\<close> returns the error string and
  the history ends with the tool result. In the second another call of the round has a
  malformed payload: the second backend call is not made, and its prepared reply stays.
\<close>

theorem division_round_without_final_turn:
  "chat bare_env scripted fresh_client
       [Inr \<lparr>message_content = PNone, message_tool_calls = Some [call_divide_10_0]\<rparr>,
        Inl (PyExn ''APITimeoutError'' ''Request timed out.'')]
       ''10 / 0?'' (Some register_tools) True temperature_0_7 (PInt 2000)
     = (PStr ''Error calling Azure OpenAI: Request timed out.'',
        \<lparr>conversation_history =
           [plain_turn ''user'' (PStr ''10 / 0?''),
            assistant_calls_turn
              \<lparr>message_content = PNone, message_tool_calls = Some [call_divide_10_0]\<rparr>
              [call_divide_10_0],
            tool_turn call_divide_10_0 (PStr ''Error: Division by zero'')],
         max_history = 50\<rparr>,
        [])
   \<and> chat bare_env scripted fresh_client
       [Inr \<lparr>message_content = PNone,
             message_tool_calls = Some [call_divide_10_0, call_divide_malformed]\<rparr>,
        Inr \<lparr>message_content = PStr ''done'', message_tool_calls = None\<rparr>]
       ''10 / 0?'' (Some register_tools) True temperature_0_7 (PInt 2000)
     = (error_text json_decode_error,
        \<lparr>conversation_history =
           [plain_turn ''user'' (PStr ''10 / 0?''),
            assistant_calls_turn
              \<lparr>message_content = PNone,
               message_tool_calls = Some [call_divide_10_0, call_divide_malformed]\<rparr>
              [call_divide_10_0, call_divide_malformed]],
         max_history = 50\<rparr>,
        [Inr \<lparr>message_content = PStr ''done'', message_tool_calls = None\<rparr>])"
  by (simp add: chat_def handle_tool_calls_def run_divide_10_0
      undecoded_call_raises [OF loads_divide_malformed] scripted_def fresh_client_def
      append_turns_def error_text_def Let_def)

text \<open>
  C8, as the code has it. With a divisor equal to 0, \<open>divide\<close> returns the text
  "Error: Division by zero" for every dividend and precision, and does not raise. In a
  round that contains such a call, and whose other calls leave the loop with their tool
  results, the call contributes its tool result with that text, and the second backend call
  is made on the history extended by all the results; when it answers, its text is appended
  as the final assistant turn and returned, and when it raises, the error string is
  returned and no final turn is appended.
\<close>

theorem division_by_zero_round:
  assumes "py_eq_zero b"
  shows "divide env a b precision = Inr (PStr ''Error: Division by zero'')
     \<and> (function_name tc = ''divide'' \<and> json_loads env (arguments tc) = Inr (PDict kv)
          \<and> map_of kv ''a'' = Some a \<and> map_of kv ''b'' = Some b
          \<and> fst ` set kv \<subseteq> {''a'', ''b'', ''precision''}
          \<and> execute_tool_calls env (Some register_tools) pre [] = Inr rs1
          \<and> execute_tool_calls env (Some register_tools) post [] = Inr rs2
          \<and> create bs (first_request (append_turns self [plain_turn ''user'' (PStr message)])
                         (Some register_tools) use_tools temp maxt) = (Inr m, bs1)
          \<and> message_tool_calls m = Some (pre @ tc # post)
        \<longrightarrow> chat env create self bs message (Some register_tools) use_tools temp maxt
              = (case create bs1 (final_request
                        (append_turns self (plain_turn ''user'' (PStr message)
                           # assistant_calls_turn m (pre @ tc # post)
                           # rs1 @ tool_turn tc (PStr ''Error: Division by zero'') # rs2))
                        temp maxt) of
                   (Inl e, bs2) \<Rightarrow>
                     (error_text e,
                      append_turns self (plain_turn ''user'' (PStr message)
                           # assistant_calls_turn m (pre @ tc # post)
                           # rs1 @ tool_turn tc (PStr ''Error: Division by zero'') # rs2), bs2)
                 | (Inr final_response, bs2) \<Rightarrow>
                     (message_content final_response,
                      append_turns self (plain_turn ''user'' (PStr message)
                           # assistant_calls_turn m (pre @ tc # post)
                           # rs1 @ tool_turn tc (PStr ''Error: Division by zero'') # rs2
                           @ [plain_turn ''assistant'' (message_content final_response)]), bs2)))"
proof (intro conjI impI)
  show "divide env a b precision = Inr (PStr ''Error: Division by zero'')"
    using assms by (rule divide_by_zero)
next
  assume round: "function_name tc = ''divide'' \<and> json_loads env (arguments tc) = Inr (PDict kv)
          \<and> map_of kv ''a'' = Some a \<and> map_of kv ''b'' = Some b
          \<and> fst ` set kv \<subseteq> {''a'', ''b'', ''precision''}
          \<and> execute_tool_calls env (Some register_tools) pre [] = Inr rs1
          \<and> execute_tool_calls env (Some register_tools) post [] = Inr rs2
          \<and> create bs (first_request (append_turns self [plain_turn ''user'' (PStr message)])
                         (Some register_tools) use_tools temp maxt) = (Inr m, bs1)
          \<and> message_tool_calls m = Some (pre @ tc # post)"
  have this_call: "execute_tool_call env (Some register_tools) tc
      = Inr (tool_turn tc (PStr ''Error: Division by zero''))"
    using assms round by (intro divide_call_turn [where b = b and a = a and kv = kv]) simp_all
  have dispatched: "execute_tool_calls env (Some register_tools) (pre @ tc # post) []
      = Inr (rs1 @ tool_turn tc (PStr ''Error: Division by zero'') # rs2)"
    using round this_call
    by (simp add: execute_tool_calls_append execute_tool_calls_Cons del: execute_tool_calls.simps)
  have "chat env create self bs message (Some register_tools) use_tools temp maxt
           = (case handle_tool_calls env create
                     (append_turns self [plain_turn ''user'' (PStr message)]) bs1 m
                     (pre @ tc # post) (Some register_tools) temp maxt of
                (Inl e, self2, bs2) \<Rightarrow> (error_text e, self2, bs2)
              | (Inr final_text, self2, bs2) \<Rightarrow> (final_text, self2, bs2))"
    using round by (intro chat_with_calls) simp_all
  then show "chat env create self bs message (Some register_tools) use_tools temp maxt
              = (case create bs1 (final_request
                        (append_turns self (plain_turn ''user'' (PStr message)
                           # assistant_calls_turn m (pre @ tc # post)
                           # rs1 @ tool_turn tc (PStr ''Error: Division by zero'') # rs2))
                        temp maxt) of
                   (Inl e, bs2) \<Rightarrow>
                     (error_text e,
                      append_turns self (plain_turn ''user'' (PStr message)
                           # assistant_calls_turn m (pre @ tc # post)
                           # rs1 @ tool_turn tc (PStr ''Error: Division by zero'') # rs2), bs2)
                 | (Inr final_response, bs2) \<Rightarrow>
                     (message_content final_response,
                      append_turns self (plain_turn ''user'' (PStr message)
                           # assistant_calls_turn m (pre @ tc # post)
                           # rs1 @ tool_turn tc (PStr ''Error: Division by zero'') # rs2
                           @ [plain_turn ''assistant'' (message_content final_response)]), bs2))"
    by (auto simp: handle_tool_calls_dispatched [OF dispatched] append_turns_twice
        split: prod.splits sum.splits)
qed

lemma divide_named: "function_name call_divide_10_0 = ''divide''"
  by (simp add: call_divide_10_0_def)

theorem division_by_zero_round_witness:
  "divide bare_env (PInt 10) (PInt 0) (PInt 2) = Inr (PStr ''Error: Division by zero'')
   \<and> chat bare_env scripted fresh_client
       [Inr \<lparr>message_content = PNone,
             message_tool_calls = Some [call_add_1_2, call_divide_10_0, call_factorial_3]\<rparr>,
        Inr \<lparr>message_content = PStr ''10 cannot be divided by 0.'', message_tool_calls = None\<rparr>]
       ''1 + 2, 10 / 0 and 3!?'' (Some register_tools) True temperature_0_7 (PInt 2000)
     = (PStr ''10 cannot be divided by 0.'',
        \<lparr>conversation_history =
           [plain_turn ''user'' (PStr ''1 + 2, 10 / 0 and 3!?''),
            assistant_calls_turn
              \<lparr>message_content = PNone,
               message_tool_calls = Some [call_add_1_2, call_divide_10_0, call_factorial_3]\<rparr>
              [call_add_1_2, call_divide_10_0, call_factorial_3],
            tool_turn call_add_1_2 (PStr ''Result: 3\<newline>Calculation: 1 + 2 = 3''),
            tool_turn call_divide_10_0 (PStr ''Error: Division by zero''),
            tool_turn call_factorial_3
              (PStr (''Result: 6\<newline>Calculation: 3! = 1 '' @ times_sign @ '' 2 '' @ times_sign
                      @ '' 3 = 6'')),
            plain_turn ''assistant'' (PStr ''10 cannot be divided by 0.'')],
         max_history = 50\<rparr>,
        [])"
  using division_by_zero_round [where b = "PInt 0" and a = "PInt 10" and precision = "PInt 2"
      and env = bare_env and tc = call_divide_10_0 and kv = "[(''a'', PInt 10), (''b'', PInt 0)]"
      and pre = "[call_add_1_2]" and post = "[call_factorial_3]"
      and ?rs1.0 = "[tool_turn call_add_1_2 (PStr ''Result: 3\<newline>Calculation: 1 + 2 = 3'')]"
      and ?rs2.0 = "[tool_turn call_factorial_3
              (PStr (''Result: 6\<newline>Calculation: 3! = 1 '' @ times_sign @ '' 2 '' @ times_sign
                      @ '' 3 = 6''))]"
      and create = scripted and self = fresh_client
      and bs = "[Inr \<lparr>message_content = PNone,
             message_tool_calls = Some [call_add_1_2, call_divide_10_0, call_factorial_3]\<rparr>,
        Inr \<lparr>message_content = PStr ''10 cannot be divided by 0.'', message_tool_calls = None\<rparr>]"
      and message = "''1 + 2, 10 / 0 and 3!?''" and use_tools = True
      and temp = temperature_0_7 and maxt = "PInt 2000"
      and m = "\<lparr>message_content = PNone,
             message_tool_calls = Some [call_add_1_2, call_divide_10_0, call_factorial_3]\<rparr>"
      and ?bs1.0 = "[Inr \<lparr>message_content = PStr ''10 cannot be divided by 0.'',
                          message_tool_calls = None\<rparr>]"]
    divide_named
  by (simp add: loads_divide_10_0 run_add_1_2 run_factorial_3 scripted_def fresh_client_def
      append_turns_def)

section \<open>The decimal text of an integer\<close>

lemma digit_val_digit_char: "d < 10 \<Longrightarrow> digit_val (digit_char d) = d"
  by (simp add: digit_val_def digit_char_def)

lemma digit_char_not_minus: "d < 10 \<Longrightarrow> digit_char d \<noteq> CHR ''-''"
proof
  assume "d < 10" and "digit_char d = CHR ''-''"
  then have "of_char (digit_char d) = (of_char (CHR ''-'') :: nat)"
    by simp
  with \<open>d < 10\<close> show False
    by (simp add: digit_char_def)
qed

lemma nat_of_digits_snoc: "nat_of_digits (ds @ [c]) = 10 * nat_of_digits ds + digit_val c"
  by (simp add: nat_of_digits_def)

lemma nat_of_digits_str_nat: "nat_of_digits (str_nat n) = n"
proof (induction n rule: str_nat.induct)
  case (1 n)
  show ?case
  proof (cases "n < 10")
    case True
    then show ?thesis
      by (subst str_nat.simps) (simp add: nat_of_digits_def digit_val_digit_char)
  next
    case False
    then show ?thesis
      using "1.IH" by (subst str_nat.simps) (simp add: nat_of_digits_snoc digit_val_digit_char)
  qed
qed

lemma str_nat_starts_with_digit: "str_nat n \<noteq> [] \<and> hd (str_nat n) \<noteq> CHR ''-''"
proof (induction n rule: str_nat.induct)
  case (1 n)
  show ?case
  proof (cases "n < 10")
    case True
    then show ?thesis
      by (subst (1 2) str_nat.simps) (simp add: digit_char_not_minus)
  next
    case False
    then show ?thesis
      using "1.IH" by (subst (1 2) str_nat.simps) simp
  qed
qed

text \<open>The text \<open>str\<close> gives an integer reads back as that integer.\<close>

theorem int_of_str_str_int: "int_of_str (str_int i) = i"
proof (cases "i < 0")
  case True
  then show ?thesis
    by (simp add: int_of_str_def str_int_def nat_of_digits_str_nat)
next
  case False
  obtain c r where cr: "str_nat (nat i) = c # r" and "c \<noteq> CHR ''-''"
    using str_nat_starts_with_digit [of "nat i"] by (cases "str_nat (nat i)") auto
  then have "int_of_str (str_nat (nat i)) = int (nat_of_digits (str_nat (nat i)))"
    by (simp add: int_of_str_def)
  then show ?thesis
    using False by (simp add: str_int_def nat_of_digits_str_nat)
qed

end
